theory Spec2Isabelle
  imports Complex_Main
begin

section \<open>Potential quantiles by double machine learning: the model of double\_ml\_pq.py\<close>

subsection \<open>Exceptions, floats and numpy arrays\<close>

text \<open>
  Every \<open>raise\<close> of the source, and every exception numpy raises on the paths modelled
  here, is a value of \<open>exn\<close>; a function that may raise returns \<open>exn + 'a\<close>.
\<close>

datatype exn = TypeError | ValueError | NotImplementedError | IndexError | AttributeError

fun bind_exn :: "exn + 'a \<Rightarrow> ('a \<Rightarrow> exn + 'b) \<Rightarrow> exn + 'b" where
  "bind_exn (Inl e) f = Inl e"
| "bind_exn (Inr v) f = f v"

text \<open>
  A float64 is an exact real, or \<open>None\<close>: a value that is not a finite number (the NaN
  that \<open>np.full(..., np.nan)\<close> writes, or the \<open>inf\<close> or NaN of a division by zero, on which
  numpy does not raise). Which of them it is, is not tracked: an operation with such an
  operand gives \<open>None\<close> again, as NaN does. Rounding and overflow are not modelled.
\<close>

type_synonym npfloat = "real option"

definition fl_bin :: "(real \<Rightarrow> real \<Rightarrow> real) \<Rightarrow> npfloat \<Rightarrow> npfloat \<Rightarrow> npfloat" where
  "fl_bin f a b =
     (case a of None \<Rightarrow> None
      | Some x \<Rightarrow> (case b of None \<Rightarrow> None | Some y \<Rightarrow> Some (f x y)))"

definition fl_add :: "npfloat \<Rightarrow> npfloat \<Rightarrow> npfloat" where
  "fl_add = fl_bin (\<lambda>x y. x + y)"

definition fl_sub :: "npfloat \<Rightarrow> npfloat \<Rightarrow> npfloat" where
  "fl_sub = fl_bin (\<lambda>x y. x - y)"

definition fl_mul :: "npfloat \<Rightarrow> npfloat \<Rightarrow> npfloat" where
  "fl_mul = fl_bin (\<lambda>x y. x * y)"

definition fl_div :: "npfloat \<Rightarrow> npfloat \<Rightarrow> npfloat" where
  "fl_div a b =
     (case a of None \<Rightarrow> None
      | Some x \<Rightarrow> (case b of None \<Rightarrow> None
                   | Some y \<Rightarrow> if y = 0 then None else Some (x / y)))"

text \<open>A boolean array entry used as a number: \<open>True\<close> is 1, \<open>False\<close> is 0.\<close>

definition fl_of_bool :: "bool \<Rightarrow> npfloat" where
  "fl_of_bool b = Some (if b then 1 else 0)"

text \<open>
  An elementwise operation on two one-dimensional arrays. numpy broadcasts an array of
  length 1 against any length and raises ValueError on every other mismatch.
\<close>

definition np_binop :: "('a \<Rightarrow> 'b \<Rightarrow> 'c) \<Rightarrow> 'a list \<Rightarrow> 'b list \<Rightarrow> exn + 'c list" where
  "np_binop f xs ys =
     (if length xs = length ys then Inr (map2 f xs ys)
      else if length xs = 1 then Inr (map (f (hd xs)) ys)
      else if length ys = 1 then Inr (map (\<lambda>x. f x (hd ys)) xs)
      else Inl ValueError)"

text \<open>
  \<open>a[inds]\<close> with an index array: the rows at the positions \<open>inds\<close>, in that order;
  IndexError when a position is out of range. Index arrays hold row positions of the
  sample (the data model's train and test indices, drawn from \<open>[0, n)\<close>), so they are
  lists of naturals.
\<close>

definition take_rows :: "'a list \<Rightarrow> nat list \<Rightarrow> exn + 'a list" where
  "take_rows xs inds =
     (if list_all (\<lambda>i. i < length xs) inds then Inr (map (\<lambda>i. xs ! i) inds)
      else Inl IndexError)"

text \<open>The optional argument \<open>inds=None\<close>: the whole array, or the selected rows.\<close>

fun select_rows :: "'a list \<Rightarrow> nat list option \<Rightarrow> exn + 'a list" where
  "select_rows xs None = Inr xs"
| "select_rows xs (Some inds) = take_rows xs inds"

text \<open>\<open>a.mean()\<close>: NaN (with a warning, no exception) on an empty array.\<close>

definition fl_sum :: "npfloat list \<Rightarrow> npfloat" where
  "fl_sum xs = foldl fl_add (Some 0) xs"

definition np_mean :: "npfloat list \<Rightarrow> npfloat" where
  "np_mean xs = fl_div (fl_sum xs) (Some (real (length xs)))"

text \<open>
  Rounding to float64: to the nearest value with 53 significant bits, a tie to the even
  one; below \<open>2 ^ -1022\<close> the spacing stays \<open>2 ^ -1074\<close>. Overflow is not modelled. The
  score functions are written in exact arithmetic; where the order of two operations on
  an array decides the float64 result (trimming and inverting propensities) the array is
  stored rounded, entry by entry (\<open>store64\<close>).
\<close>

definition round_half_even :: "real \<Rightarrow> int" where
  "round_half_even x =
     (let f = \<lfloor>x\<rfloor>; d = x - of_int f
      in if d < 1 / 2 then f else if d > 1 / 2 then f + 1 else if even f then f else f + 1)"

text \<open>
  The binary exponent of a positive number \<open>x * 2 ^ e\<close>: halve or double \<open>x\<close> until it is in
  [1, 2). The first argument bounds the number of steps; float64 exponents need fewer
  than 1100.
\<close>

fun binade :: "nat \<Rightarrow> real \<Rightarrow> int \<Rightarrow> int" where
  "binade 0 x e = e"
| "binade (Suc k) x e =
     (if x \<ge> 2 then binade k (x / 2) (e + 1)
      else if x < 1 then binade k (2 * x) (e - 1)
      else e)"

definition pow2 :: "int \<Rightarrow> real" where
  "pow2 e = (if 0 \<le> e then 2 ^ nat e else 1 / 2 ^ nat (- e))"

definition fl64 :: "real \<Rightarrow> real" where
  "fl64 x =
     (if x = 0 then 0
      else let e = max (binade 2200 \<bar>x\<bar> 0) (- 1022);
               ulp = pow2 (e - 52)
           in sgn x * (of_int (round_half_even (\<bar>x\<bar> / ulp)) * ulp))"

definition store64 :: "npfloat list \<Rightarrow> npfloat list" where
  "store64 a = map (map_option fl64) a"

subsection \<open>The data container, the learners and the estimator\<close>

text \<open>
  One sample: the covariate rows \<open>x\<close>, the outcome \<open>y\<close>, the treatment column \<open>d\<close> and the
  names of the instrument columns (\<open>None\<close> when the data has no instrumental variable).
  \<open>n_obs\<close> is the number of rows.
\<close>

record 'x dataset =
  data_x :: "'x list"
  data_y :: "real list"
  data_d :: "int list"
  z_cols :: "string list option"

definition n_obs :: "'x dataset \<Rightarrow> nat" where
  "n_obs ds = length (data_y ds)"

text \<open>What a caller may pass as \<open>obj_dml_data\<close>.\<close>

datatype 'x data_obj = DoubleMLData "'x dataset" | DoubleMLClusterData "'x dataset" | OtherObject

text \<open>
  A dynamically typed argument of the constructor. A Python \<open>float\<close> is a finite number
  (\<open>PyFloat\<close>), \<open>float('inf')\<close> (also the value of \<open>np.power(0, -0.2)\<close>), \<open>float('-inf')\<close> or
  \<open>float('nan')\<close>.
\<close>

datatype pyval =
  PyNone | PyBool bool | PyInt int | PyFloat real | PyInf | PyNegInf | PyNaN | PyStr string

text \<open>
  The bandwidth attribute \<open>_h\<close> once it has passed \<open>_check_bandwidth\<close>: a float that is
  finite, \<open>inf\<close> or NaN.
\<close>

datatype bandwidth = BW real | BWInf | BWNaN

text \<open>
  Division of a float by the bandwidth: a finite number divided by \<open>inf\<close> is 0, anything
  divided by NaN is NaN.
\<close>

fun div_bw :: "npfloat \<Rightarrow> bandwidth \<Rightarrow> npfloat" where
  "div_bw v (BW b) = fl_div v (Some b)"
| "div_bw v BWInf = map_option (\<lambda>_. 0) v"
| "div_bw v BWNaN = None"

text \<open>The targets of a fit: the boolean array \<open>y <= ipw_est\<close> for ml\_g, the column \<open>d\<close> for ml\_m.\<close>

datatype label = BoolLabel bool | IntLabel int

text \<open>One sample split: per fold the pair \<open>(train_inds, test_inds)\<close>.\<close>

type_synonym smpl = "(nat list \<times> nat list) list"

text \<open>
  The attributes of a DoubleMLPQ object. The dictionary \<open>_learner\<close> has the two fixed keys
  \<open>'ml_g'\<close> and \<open>'ml_m'\<close>; they are the fields \<open>learner_g\<close> and \<open>learner_m\<close>. \<open>self_h\<close> is the
  attribute \<open>_h\<close>, \<open>smpls\<close> is \<open>None\<close> until a sample splitting is drawn, and \<open>'l\<close> is the type
  of learner objects.
\<close>

record ('x, 'l) dml_pq =
  dml_data :: "'x dataset"
  n_folds :: nat
  n_rep :: nat
  score :: string
  dml_procedure :: string
  apply_cross_fitting :: bool
  quantile :: real
  treatment :: int
  self_h :: bandwidth
  normalize :: bool
  coef_bounds :: "real \<times> real"
  coef_start_val :: real
  trimming_rule :: string
  trimming_threshold :: real
  learner_g :: 'l
  learner_m :: 'l
  smpls :: "smpl list option"

text \<open>
  The dictionary \<open>psi_elements\<close>; its keys \<open>'ind_d'\<close>, \<open>'g'\<close>, \<open>'m'\<close>, \<open>'y'\<close>
  (\<open>_score_element_names\<close>) are the fields, prefixed with \<open>psi_\<close>.
\<close>

record psi_elements =
  psi_ind_d :: "bool list"
  psi_g :: "npfloat list"
  psi_m :: "npfloat list"
  psi_y :: "real list"

text \<open>The dictionary \<open>preds\<close> with the keys \<open>'ml_g'\<close> and \<open>'ml_m'\<close>.\<close>

record preds =
  preds_ml_g :: "npfloat list"
  preds_ml_m :: "npfloat list"

text \<open>
  What the estimator calls and this file does not define: scikit-learn (\<open>clone\<close>,
  \<open>train_test_split\<close> with \<open>test_size=0.5, random_state=42\<close>, \<open>StratifiedKFold.split\<close>, the
  learner's \<open>fit\<close>), scipy (\<open>root_scalar\<close> with \<open>method='brentq'\<close>) and the helpers of the
  package that only take and return values (\<open>_check_learner\<close>,
  \<open>DoubleMLResampling.split_samples\<close>, \<open>_dml_cv_predict\<close>, \<open>_get_bracket_guess\<close>,
  \<open>_predict_zero_one_propensity\<close>). Each is a parameter and each may raise. \<open>fit\<close> changes
  the learner it is called on: it returns the learner after the fit. \<open>_dml_cv_predict\<close>
  fits clones, so it returns predictions only. The function handed to the root search is
  the closure \<open>ipw_score\<close>, which may raise and may return NaN.
\<close>

record ('x, 'l) env =
  check_learner :: "'l \<Rightarrow> exn + unit"
  clone :: "'l \<Rightarrow> 'l"
  split_samples :: "nat \<Rightarrow> nat \<Rightarrow> nat \<Rightarrow> bool \<Rightarrow> int list \<Rightarrow> exn + smpl list"
  train_test_split :: "nat list \<Rightarrow> int list \<Rightarrow> exn + (nat list \<times> nat list)"
  stratified_kfold :: "nat \<Rightarrow> nat list \<Rightarrow> int list \<Rightarrow> exn + smpl"
  dml_cv_predict :: "'l \<Rightarrow> 'x list \<Rightarrow> int list \<Rightarrow> smpl \<Rightarrow> exn + npfloat list"
  get_bracket_guess ::
    "(real \<Rightarrow> exn + npfloat) \<Rightarrow> real \<Rightarrow> real \<times> real \<Rightarrow> exn + (real \<times> real)"
  root_scalar :: "(real \<Rightarrow> exn + npfloat) \<Rightarrow> real \<times> real \<Rightarrow> exn + real"
  fit :: "'l \<Rightarrow> 'x list \<Rightarrow> label list \<Rightarrow> exn + 'l"
  predict_zero_one_propensity :: "'l \<Rightarrow> 'x list \<Rightarrow> exn + real list"

subsection \<open>\<open>_compute_score\<close> and \<open>_compute_score_deriv\<close>\<close>

text \<open>
  \<open>score = ind_d * ((y <= coef) - g) / m + g - self.quantile\<close>, one array operation after
  the other, on the whole arrays or on the rows \<open>inds\<close>.
\<close>

definition compute_score ::
  "('x, 'l) dml_pq \<Rightarrow> psi_elements \<Rightarrow> real \<Rightarrow> nat list option \<Rightarrow> exn + npfloat list" where
  "compute_score self psi coef inds =
     bind_exn (select_rows (psi_ind_d psi) inds) (\<lambda>ind_d1.
     bind_exn (select_rows (psi_g psi) inds) (\<lambda>g1.
     bind_exn (select_rows (psi_m psi) inds) (\<lambda>m1.
     bind_exn (select_rows (psi_y psi) inds) (\<lambda>y1.
     bind_exn (np_binop fl_sub (map (\<lambda>v. fl_of_bool (v \<le> coef)) y1) g1) (\<lambda>t1.
     bind_exn (np_binop fl_mul (map fl_of_bool ind_d1) t1) (\<lambda>t2.
     bind_exn (np_binop fl_div t2 m1) (\<lambda>t3.
     bind_exn (np_binop fl_add t3 g1) (\<lambda>t4.
     Inr (map (\<lambda>v. fl_sub v (Some (quantile self))) t4)))))))))"

text \<open>The standard normal density, \<open>np.exp(-1. * np.power(u, 2) / 2) / np.sqrt(2 * np.pi)\<close>.\<close>

definition gauss_kernel :: "real \<Rightarrow> real" where
  "gauss_kernel u = exp (- 1 * u ^ 2 / 2) / sqrt (2 * pi)"

text \<open>
  The weights \<open>ind_d / m\<close>, divided in place by their mean when \<open>self._normalize\<close> holds, times
  the kernel at \<open>(y - coef) / h\<close>, over \<open>h\<close>.
\<close>

definition compute_score_deriv ::
  "('x, 'l) dml_pq \<Rightarrow> psi_elements \<Rightarrow> real \<Rightarrow> nat list option \<Rightarrow> exn + npfloat list" where
  "compute_score_deriv self psi coef inds =
     bind_exn (select_rows (psi_ind_d psi) inds) (\<lambda>ind_d1.
     bind_exn (select_rows (psi_m psi) inds) (\<lambda>m1.
     bind_exn (select_rows (psi_y psi) inds) (\<lambda>y1.
     bind_exn (np_binop fl_div (map fl_of_bool ind_d1) m1) (\<lambda>score_weights.
       let normalization = np_mean score_weights;
           score_weights1 = (if normalize self
                             then map (\<lambda>w. fl_div w normalization) score_weights
                             else score_weights);
           u = map (\<lambda>v. div_bw (Some (v - coef)) (self_h self)) y1;
           kernel_est = map (map_option gauss_kernel) u
       in bind_exn (np_binop fl_mul score_weights1 kernel_est) (\<lambda>t.
          Inr (map (\<lambda>v. div_bw v (self_h self)) t))))))"

text \<open>\<open>score = (d == self.treatment) / prop * (y <= theta) - self.quantile\<close>.\<close>

definition compute_ipw_score ::
  "('x, 'l) dml_pq \<Rightarrow> real \<Rightarrow> int list \<Rightarrow> real list \<Rightarrow> npfloat list \<Rightarrow> exn + npfloat list" where
  "compute_ipw_score self theta d y prop =
     bind_exn (np_binop fl_div (map (\<lambda>v. fl_of_bool (v = treatment self)) d) prop) (\<lambda>t1.
     bind_exn (np_binop fl_mul t1 (map (\<lambda>v. fl_of_bool (v \<le> theta)) y)) (\<lambda>t2.
     Inr (map (\<lambda>v. fl_sub v (Some (quantile self))) t2)))"

subsection \<open>The constructor\<close>

text \<open>
  The checks that \<open>__init__\<close> imports from \<open>_utils\<close> are not part of the sources; each
  follows what the spec says the constructor refuses. A check returns the checked value.
\<close>

text \<open>
  Modelled from the spec: \<open>_check_score\<close>, missing from the sources. The constructor calls it
  with the valid scores \<open>['PQ']\<close>, the only choice its docstring gives.
\<close>

definition check_score :: "pyval \<Rightarrow> exn + string" where
  "check_score v =
     (case v of PyStr s \<Rightarrow> if s = ''PQ'' then Inr s else Inl ValueError | _ \<Rightarrow> Inl TypeError)"

text \<open>
  Modelled from the spec: \<open>_check_quantile\<close>, missing from the sources. The quantile must
  be in (0, 1); an infinity or NaN is not in that interval, and what the missing function
  does with them cannot be read off the sources.
\<close>

definition check_quantile :: "pyval \<Rightarrow> exn + real" where
  "check_quantile v =
     (case v of PyFloat q \<Rightarrow> if q \<le> 0 \<or> q \<ge> 1 then Inl ValueError else Inr q
      | PyInf \<Rightarrow> Inl ValueError
      | PyNegInf \<Rightarrow> Inl ValueError
      | PyNaN \<Rightarrow> Inl ValueError
      | _ \<Rightarrow> Inl TypeError)"

text \<open>
  Modelled from the spec: \<open>_check_treatment\<close>, missing from the sources. The treatment
  indicator must be 0 or 1. Python's \<open>bool\<close> is an \<open>int\<close>, so \<open>True\<close> and \<open>False\<close> are the
  indicators 1 and 0.
\<close>

definition check_treatment :: "pyval \<Rightarrow> exn + int" where
  "check_treatment v =
     (case v of PyInt t \<Rightarrow> if t \<noteq> 0 \<and> t \<noteq> 1 then Inl ValueError else Inr t
      | PyBool b \<Rightarrow> Inr (if b then 1 else 0)
      | _ \<Rightarrow> Inl TypeError)"

text \<open>
  Modelled from the spec: \<open>_check_trimming\<close>, missing from the sources. The rule must be
  \<open>'truncate'\<close> and the threshold in (0, 0.5); an infinity or NaN is not in that interval,
  and what the missing function does with them cannot be read off the sources.
\<close>

definition check_trimming :: "pyval \<Rightarrow> pyval \<Rightarrow> exn + (string \<times> real)" where
  "check_trimming rule threshold =
     (case rule of
        PyStr r \<Rightarrow>
          if r \<noteq> ''truncate'' then Inl ValueError
          else (case threshold of
                  PyFloat t \<Rightarrow> if t \<le> 0 \<or> t \<ge> 1 / 2 then Inl ValueError else Inr (r, t)
                | PyInf \<Rightarrow> Inl ValueError
                | PyNegInf \<Rightarrow> Inl ValueError
                | PyNaN \<Rightarrow> Inl ValueError
                | _ \<Rightarrow> Inl TypeError)
      | _ \<Rightarrow> Inl ValueError)"

text \<open>
  Modelled from the spec: \<open>_check_contains_iv\<close>, missing from the sources. Data that contains
  instrumental variables is refused.
\<close>

definition check_contains_iv :: "'x dataset \<Rightarrow> exn + unit" where
  "check_contains_iv ds = (if z_cols ds \<noteq> None then Inl ValueError else Inr ())"

text \<open>
  Modelled from the spec: \<open>_check_zero_one_treatment\<close>, missing from the sources. The
  treatment column must be binary with the values 0 and 1.
\<close>

definition check_zero_one_treatment :: "'x dataset \<Rightarrow> exn + unit" where
  "check_zero_one_treatment ds =
     (if list_all (\<lambda>v. v = 0 \<or> v = 1) (data_d ds) then Inr () else Inl ValueError)"

text \<open>
  \<open>_check_data\<close>: the container has to be a DoubleMLData, without instruments and with a
  0/1 treatment.
\<close>

definition check_data :: "'x data_obj \<Rightarrow> exn + 'x dataset" where
  "check_data obj =
     (case obj of
        DoubleMLData ds \<Rightarrow>
          bind_exn (check_contains_iv ds) (\<lambda>_.
          bind_exn (check_zero_one_treatment ds) (\<lambda>_. Inr ds))
      | DoubleMLClusterData ds \<Rightarrow>
          bind_exn (check_contains_iv ds) (\<lambda>_.
          bind_exn (check_zero_one_treatment ds) (\<lambda>_. Inr ds))
      | OtherObject \<Rightarrow> Inl TypeError)"

text \<open>
  \<open>_check_bandwidth\<close>: TypeError unless \<open>isinstance(bandwidth, float)\<close>, ValueError when
  \<open>bandwidth <= 0\<close>. The comparison is false for NaN, as every comparison with NaN is, so
  NaN passes.
\<close>

definition check_bandwidth :: "pyval \<Rightarrow> exn + bandwidth" where
  "check_bandwidth v =
     (case v of PyFloat b \<Rightarrow> if b \<le> 0 then Inl ValueError else Inr (BW b)
      | PyInf \<Rightarrow> Inr BWInf
      | PyNegInf \<Rightarrow> Inl ValueError
      | PyNaN \<Rightarrow> Inr BWNaN
      | _ \<Rightarrow> Inl TypeError)"

text \<open>\<open>np.power(n_obs, -0.2)\<close>; numpy returns \<open>inf\<close> for \<open>n_obs = 0\<close>.\<close>

definition np_power_n_obs :: "nat \<Rightarrow> pyval" where
  "np_power_n_obs n = (if n = 0 then PyInf else PyFloat (real n powr (- (2 / 10))))"

text \<open>
  \<open>np.quantile(y, q)\<close> with numpy's default linear interpolation between the order
  statistics around position \<open>q * (n - 1)\<close>, for a non-empty \<open>y\<close> and \<open>q\<close> in [0, 1].
\<close>

definition np_quantile :: "real list \<Rightarrow> real \<Rightarrow> real" where
  "np_quantile ys q =
     (let s = sort ys;
          pos = q * real (length s - 1);
          lo = nat \<lfloor>pos\<rfloor>;
          hi = min (lo + 1) (length s - 1)
      in s ! lo + (pos - real lo) * (s ! hi - s ! lo))"

text \<open>The arguments of \<open>__init__\<close>; the defaults of the signature are the caller's business.\<close>

record ('x, 'l) init_args =
  arg_obj_dml_data :: "'x data_obj"
  arg_ml_g :: 'l
  arg_ml_m :: 'l
  arg_treatment :: pyval
  arg_quantile :: pyval
  arg_n_folds :: nat
  arg_n_rep :: nat
  arg_score :: pyval
  arg_dml_procedure :: string
  arg_trimming_rule :: pyval
  arg_trimming_threshold :: pyval
  arg_h :: pyval
  arg_normalize :: pyval
  arg_draw_sample_splitting :: bool
  arg_apply_cross_fitting :: bool

text \<open>The dataset of a data container; any other object has no attribute \<open>n_obs\<close>.\<close>

fun dataset_of :: "'x data_obj \<Rightarrow> exn + 'x dataset" where
  "dataset_of (DoubleMLData ds) = Inr ds"
| "dataset_of (DoubleMLClusterData ds) = Inr ds"
| "dataset_of OtherObject = Inl AttributeError"

text \<open>
  Modelled from the spec: the base constructor \<open>DoubleML.__init__\<close>, missing from the
  sources. It keeps the data container (and the resampling arguments, which \<open>init\<close> below
  copies from the arguments) and sets \<open>_is_cluster_data\<close> for clustered data. The pair is
  \<open>_dml_data\<close> and \<open>_is_cluster_data\<close>.
\<close>

definition super_init :: "('x, 'l) init_args \<Rightarrow> 'x data_obj \<times> bool" where
  "super_init a =
     (arg_obj_dml_data a,
      (case arg_obj_dml_data a of DoubleMLClusterData _ \<Rightarrow> True | _ \<Rightarrow> False))"

text \<open>
  \<open>__init__\<close>, in the order of the source. The bounds of the coefficient are \<open>y.min()\<close> and
  \<open>y.max()\<close>, which raise ValueError on an empty array. \<open>_initialize_ml_nuisance_params\<close>
  fills \<open>_params\<close>, which no modelled method reads.
\<close>

definition init :: "('x, 'l) env \<Rightarrow> ('x, 'l) init_args \<Rightarrow> exn + ('x, 'l) dml_pq" where
  "init E a =
     (let obj = fst (super_init a);
          is_cluster_data = snd (super_init a)
      in
      bind_exn (if arg_h a = PyNone
                then bind_exn (dataset_of obj) (\<lambda>ds. Inr (np_power_n_obs (n_obs ds)))
                else Inr (arg_h a)) (\<lambda>h1.
      if is_cluster_data then Inl NotImplementedError
      else
      bind_exn (check_data obj) (\<lambda>ds.
      bind_exn (check_score (arg_score a)) (\<lambda>score1.
      bind_exn (check_quantile (arg_quantile a)) (\<lambda>quantile1.
      bind_exn (check_treatment (arg_treatment a)) (\<lambda>treatment1.
      bind_exn (check_bandwidth h1) (\<lambda>h2.
      bind_exn (case arg_normalize a of PyBool b \<Rightarrow> Inr b | _ \<Rightarrow> Inl TypeError) (\<lambda>normalize1.
      bind_exn (if data_y ds = [] then Inl ValueError
                else Inr (Min (set (data_y ds)), Max (set (data_y ds)))) (\<lambda>bounds.
      bind_exn (check_trimming (arg_trimming_rule a) (arg_trimming_threshold a)) (\<lambda>(rule, thr).
      bind_exn (check_learner E (arg_ml_g a)) (\<lambda>_.
      bind_exn (check_learner E (arg_ml_m a)) (\<lambda>_.
      bind_exn (if arg_draw_sample_splitting a
                then bind_exn (split_samples E (arg_n_folds a) (arg_n_rep a) (n_obs ds)
                                 (arg_apply_cross_fitting a) (data_d ds))
                       (\<lambda>all_smpls. Inr (Some all_smpls))
                else Inr None) (\<lambda>smpls1.
      Inr \<lparr>dml_data = ds, n_folds = arg_n_folds a, n_rep = arg_n_rep a, score = score1,
           dml_procedure = arg_dml_procedure a,
           apply_cross_fitting = arg_apply_cross_fitting a,
           quantile = quantile1, treatment = treatment1, self_h = h2,
           normalize = normalize1, coef_bounds = bounds,
           coef_start_val = np_quantile (data_y ds) quantile1,
           trimming_rule = rule, trimming_threshold = thr,
           learner_g = clone E (arg_ml_g a), learner_m = clone E (arg_ml_m a),
           smpls = smpls1\<rparr>)))))))))))))"

subsection \<open>Nuisance estimation\<close>

text \<open>
  Modelled from the spec: \<open>_trimm\<close> is imported from \<open>_utils\<close>, which is not part of the
  sources. The Trimming Utility of the spec clips element-wise to \<open>[\<tau>, 1 - \<tau>]\<close> and fails
  with a validation error when the rule is not \<open>'truncate'\<close> or \<open>\<tau>\<close> is outside (0, 0.5); an
  entry that is NaN stays NaN.
\<close>

definition trimm :: "npfloat list \<Rightarrow> string \<Rightarrow> real \<Rightarrow> exn + npfloat list" where
  "trimm p rule tau =
     (if rule \<noteq> ''truncate'' \<or> \<not> (0 < tau \<and> tau < 1 / 2) then Inl ValueError
      else Inr (map (map_option (\<lambda>v. max tau (min (1 - tau) v))) p))"

text \<open>\<open>1 - a\<close> on an array.\<close>

definition one_minus :: "npfloat list \<Rightarrow> npfloat list" where
  "one_minus a = map (\<lambda>v. fl_sub (Some 1) v) a"

text \<open>
  \<open>a[inds] = vals\<close>: IndexError for a position out of range; a value array of the length
  of \<open>inds\<close> is written position by position (the last write wins on a repeated
  position), one of length 1 is written everywhere, any other length is a ValueError.
\<close>

definition assign_rows :: "'a list \<Rightarrow> nat list \<Rightarrow> 'a list \<Rightarrow> exn + 'a list" where
  "assign_rows a inds vals =
     (if \<not> list_all (\<lambda>i. i < length a) inds then Inl IndexError
      else if length vals = length inds
        then Inr (fold (\<lambda>(i, v) b. b[i := v]) (zip inds vals) a)
      else if length vals = 1 then Inr (fold (\<lambda>i b. b[i := hd vals]) inds a)
      else Inl ValueError)"

text \<open>\<open>a[mask]\<close> with a boolean array of the length of \<open>a\<close>.\<close>

definition mask_rows :: "'a list \<Rightarrow> bool list \<Rightarrow> 'a list" where
  "mask_rows a bs = map fst (filter snd (zip a bs))"

text \<open>
  \<open>check_X_y\<close> of scikit-learn, as far as it matters here: ValueError when the two arrays
  differ in length or have no row.
\<close>

definition check_X_y :: "'x list \<Rightarrow> 'b list \<Rightarrow> exn + ('x list \<times> 'b list)" where
  "check_X_y x v = (if length x \<noteq> length v \<or> x = [] then Inl ValueError else Inr (x, v))"

text \<open>
  The preliminary propensities of a fold: the out-of-fold predictions are trimmed, then
  inverted when the treatment of interest is 0. Both steps give a float64 array.
\<close>

definition m_hat_prelim_of :: "('x, 'l) dml_pq \<Rightarrow> npfloat list \<Rightarrow> exn + npfloat list" where
  "m_hat_prelim_of self p =
     bind_exn (trimm p (trimming_rule self) (trimming_threshold self)) (\<lambda>trimmed.
     let m_hat_prelim = store64 trimmed
     in Inr (if treatment self = 0 then store64 (one_minus m_hat_prelim) else m_hat_prelim))"

text \<open>The closure \<open>ipw_score\<close>: the mean of the IPW score at \<open>theta\<close>.\<close>

definition ipw_score ::
  "('x, 'l) dml_pq \<Rightarrow> int list \<Rightarrow> real list \<Rightarrow> npfloat list \<Rightarrow> real \<Rightarrow> exn + npfloat" where
  "ipw_score self d_train_1 y_train_1 m_hat_prelim theta =
     bind_exn (compute_ipw_score self theta d_train_1 y_train_1 m_hat_prelim) (\<lambda>res.
     Inr (np_mean res))"

text \<open>
  The body of the loop over the folds. The state is the object and the two prediction
  arrays; the object changes three times: \<open>_coef_start_val\<close> takes the preliminary
  estimate, and the two stored learners are fitted.
\<close>

definition nuisance_fold ::
  "('x, 'l) env \<Rightarrow> 'x list \<Rightarrow> real list \<Rightarrow> int list \<Rightarrow>
   ('x, 'l) dml_pq \<times> npfloat list \<times> npfloat list \<Rightarrow> nat list \<times> nat list \<Rightarrow>
   exn + (('x, 'l) dml_pq \<times> npfloat list \<times> npfloat list)" where
  "nuisance_fold E x y d st smpl_fold =
     (case st of (self, g_hat, m_hat) \<Rightarrow>
      case smpl_fold of (train_inds, test_inds) \<Rightarrow>
      bind_exn (take_rows d train_inds) (\<lambda>d_train.
      bind_exn (train_test_split E train_inds d_train) (\<lambda>(train_inds_1, train_inds_2).
      bind_exn (take_rows d train_inds_1) (\<lambda>d_train_1.
      bind_exn (stratified_kfold E (n_folds self) train_inds_1 d_train_1) (\<lambda>smpls_prelim.
      bind_exn (take_rows y train_inds_1) (\<lambda>y_train_1.
      bind_exn (take_rows x train_inds_1) (\<lambda>x_train_1.
      bind_exn (dml_cv_predict E (learner_m self) x_train_1 d_train_1 smpls_prelim) (\<lambda>p.
      bind_exn (m_hat_prelim_of self p) (\<lambda>m_hat_prelim.
      bind_exn (get_bracket_guess E (ipw_score self d_train_1 y_train_1 m_hat_prelim)
                  (coef_start_val self) (coef_bounds self)) (\<lambda>bracket_guess.
      bind_exn (root_scalar E (ipw_score self d_train_1 y_train_1 m_hat_prelim)
                  bracket_guess) (\<lambda>ipw_est.
      let self1 = self\<lparr>coef_start_val := ipw_est\<rparr> in
      bind_exn (take_rows d train_inds_2) (\<lambda>d_train_2.
      bind_exn (take_rows y train_inds_2) (\<lambda>y_train_2.
      bind_exn (take_rows x train_inds_2) (\<lambda>x_train_2.
      let treated = map (\<lambda>v. v = treatment self1) d_train_2;
          dx_treat_train_2 = mask_rows x_train_2 treated;
          y_treat_train_2 = mask_rows y_train_2 treated
      in
      bind_exn (fit E (learner_g self1) dx_treat_train_2
                  (map (\<lambda>v. BoolLabel (v \<le> ipw_est)) y_treat_train_2)) (\<lambda>ml_g.
      let self2 = self1\<lparr>learner_g := ml_g\<rparr> in
      bind_exn (take_rows x test_inds) (\<lambda>x_test.
      bind_exn (predict_zero_one_propensity E (learner_g self2) x_test) (\<lambda>g_pred.
      bind_exn (assign_rows g_hat test_inds (map Some g_pred)) (\<lambda>g_hat1.
      bind_exn (take_rows x train_inds) (\<lambda>x_train.
      bind_exn (fit E (learner_m self2) x_train (map IntLabel d_train)) (\<lambda>ml_m.
      let self3 = self2\<lparr>learner_m := ml_m\<rparr> in
      bind_exn (predict_zero_one_propensity E (learner_m self3) x_test) (\<lambda>m_pred.
      bind_exn (assign_rows m_hat test_inds (map Some m_pred)) (\<lambda>m_hat1.
      Inr (self3, g_hat1, m_hat1)))))))))))))))))))))))"

text \<open>
  \<open>for i_fold in range(self.n_folds)\<close>, reading \<open>smpls[i_fold]\<close>: IndexError when the split
  has fewer folds.
\<close>

fun nuisance_loop ::
  "('x, 'l) env \<Rightarrow> 'x list \<Rightarrow> real list \<Rightarrow> int list \<Rightarrow> smpl \<Rightarrow>
   ('x, 'l) dml_pq \<times> npfloat list \<times> npfloat list \<Rightarrow> nat list \<Rightarrow>
   exn + (('x, 'l) dml_pq \<times> npfloat list \<times> npfloat list)" where
  "nuisance_loop E x y d smpls0 st [] = Inr st"
| "nuisance_loop E x y d smpls0 st (i_fold # rest) =
     (if i_fold < length smpls0
      then bind_exn (nuisance_fold E x y d st (smpls0 ! i_fold))
             (\<lambda>st1. nuisance_loop E x y d smpls0 st1 rest)
      else Inl IndexError)"

text \<open>
  \<open>_nuisance_est\<close>. It returns the score elements and the predictions; the object after
  the call is returned with them. The inverted and the trimmed \<open>m_hat\<close> are float64
  arrays. An exception gives up the call, and the model does not say what the object
  looks like then. \<open>n_jobs_cv\<close> and \<open>return_models\<close> are not read.
\<close>

definition nuisance_est ::
  "('x, 'l) env \<Rightarrow> ('x, 'l) dml_pq \<Rightarrow> smpl \<Rightarrow>
   exn + (('x, 'l) dml_pq \<times> psi_elements \<times> preds)" where
  "nuisance_est E self smpls0 =
     bind_exn (check_X_y (data_x (dml_data self)) (data_y (dml_data self))) (\<lambda>(x0, y).
     bind_exn (check_X_y x0 (data_d (dml_data self))) (\<lambda>(x, d).
     let g_hat0 = replicate (n_obs (dml_data self)) None;
         m_hat0 = replicate (n_obs (dml_data self)) None
     in
     bind_exn (nuisance_loop E x y d smpls0 (self, g_hat0, m_hat0) [0..<n_folds self])
       (\<lambda>(self1, g_hat, m_hat0).
     let m_hat1 = (if treatment self1 = 0 then store64 (one_minus m_hat0) else m_hat0) in
     bind_exn (trimm m_hat1 (trimming_rule self1) (trimming_threshold self1)) (\<lambda>trimmed.
     let m_hat = store64 trimmed in
     Inr (self1,
          \<lparr>psi_ind_d = map (\<lambda>v. v = treatment self1) d, psi_g = g_hat, psi_m = m_hat,
           psi_y = y\<rparr>,
          \<lparr>preds_ml_g = g_hat, preds_ml_m = m_hat\<rparr>)))))"

text \<open>\<open>_nuisance_tuning\<close> raises at once; the pair is the outcome and the object after the call.\<close>

definition nuisance_tuning ::
  "('x, 'l) dml_pq \<Rightarrow> smpl list \<Rightarrow> 'a \<Rightarrow> 'b \<Rightarrow> nat \<Rightarrow> 'c \<Rightarrow> 'd \<Rightarrow> nat \<Rightarrow>
   (exn + unit) \<times> ('x, 'l) dml_pq" where
  "nuisance_tuning self smpls0 param_grids scoring_methods n_folds_tune n_jobs_cv search_mode
     n_iter_randomized_search = (Inl NotImplementedError, self)"

subsection \<open>What the spec says, entry by entry\<close>

text \<open>
  The score of the spec, \<open>indicator * ((Y \<le> \<theta>) - g) / m + g - quantile\<close>, at one
  observation; it is a number when \<open>g\<close> and \<open>m\<close> are and \<open>m\<close> is not 0.
\<close>

definition spec_score :: "real \<Rightarrow> real \<Rightarrow> bool \<Rightarrow> npfloat \<Rightarrow> npfloat \<Rightarrow> real \<Rightarrow> npfloat" where
  "spec_score q theta ind gi mi yi =
     (case gi of None \<Rightarrow> None
      | Some gv \<Rightarrow>
          (case mi of None \<Rightarrow> None
           | Some mv \<Rightarrow>
               if mv = 0 then None
               else Some (of_bool ind * (of_bool (yi \<le> theta) - gv) / mv + gv - q)))"

text \<open>The standard normal density \<open>\<phi>\<close> of the spec.\<close>

definition std_normal_density :: "real \<Rightarrow> real" where
  "std_normal_density u = exp (- (u ^ 2) / 2) / sqrt (2 * pi)"

text \<open>The weight \<open>indicator / m\<close> of the spec at one observation.\<close>

definition spec_weight :: "bool \<Rightarrow> real \<Rightarrow> real" where
  "spec_weight ind mv = of_bool ind / mv"

text \<open>The rows an evaluation runs over: all \<open>n\<close> of them, or the subset \<open>inds\<close>.\<close>

fun rows_of :: "nat \<Rightarrow> nat list option \<Rightarrow> nat list" where
  "rows_of n None = [0..<n]"
| "rows_of n (Some inds) = inds"

text \<open>The rows that the test sets of the first \<open>k\<close> folds of a split name.\<close>

definition test_rows :: "smpl \<Rightarrow> nat \<Rightarrow> nat set" where
  "test_rows smpls0 k = (\<Union>j \<in> {0..<k}. set (snd (smpls0 ! j)))"



subsection \<open>A small sample and stand-ins for the libraries\<close>

text \<open>
  Eight observations, two folds, and stand-ins for scikit-learn and scipy that can be
  evaluated: a learner that predicts the share of positive targets it was fitted on, a
  half split and folds by position, a bracket that is the whole range, and a root search
  by three bisection steps after the check that the ends differ in sign.
\<close>

datatype toy_learner = Blueprint | Fitted "real list" "label list"

fun is_positive :: "label \<Rightarrow> bool" where
  "is_positive (BoolLabel b) = b"
| "is_positive (IntLabel i) = (i = 1)"

definition positive_share :: "label list \<Rightarrow> real" where
  "positive_share ls = real (length (filter is_positive ls)) / real (length ls)"

definition toy_fit :: "toy_learner \<Rightarrow> real list \<Rightarrow> label list \<Rightarrow> exn + toy_learner" where
  "toy_fit l xs ls = (if xs = [] then Inl ValueError else Inr (Fitted xs ls))"

fun toy_predict :: "toy_learner \<Rightarrow> real list \<Rightarrow> exn + real list" where
  "toy_predict Blueprint xs = Inl ValueError"
| "toy_predict (Fitted _ ls) xs = Inr (replicate (length xs) (positive_share ls))"

definition toy_kfold :: "nat \<Rightarrow> nat \<Rightarrow> smpl" where
  "toy_kfold k n =
     map (\<lambda>j. (filter (\<lambda>i. i mod k \<noteq> j) [0..<n], filter (\<lambda>i. i mod k = j) [0..<n])) [0..<k]"

fun bisect :: "nat \<Rightarrow> (real \<Rightarrow> exn + npfloat) \<Rightarrow> real \<Rightarrow> real \<Rightarrow> exn + real" where
  "bisect 0 f a b = Inr ((a + b) / 2)"
| "bisect (Suc k) f a b =
     bind_exn (f ((a + b) / 2)) (\<lambda>v.
       case v of None \<Rightarrow> Inl ValueError
       | Some fc \<Rightarrow> if fc < 0 then bisect k f ((a + b) / 2) b else bisect k f a ((a + b) / 2))"

definition toy_root_scalar :: "(real \<Rightarrow> exn + npfloat) \<Rightarrow> real \<times> real \<Rightarrow> exn + real" where
  "toy_root_scalar f bracket =
     bind_exn (f (fst bracket)) (\<lambda>fa.
     bind_exn (f (snd bracket)) (\<lambda>fb.
       case fl_mul fa fb of None \<Rightarrow> Inl ValueError
       | Some v \<Rightarrow> if v > 0 then Inl ValueError
                  else bisect (Suc (Suc (Suc 0))) f (fst bracket) (snd bracket)))"

definition toy_env :: "(real, toy_learner) env" where
  "toy_env =
     \<lparr>check_learner = (\<lambda>l. Inr ()),
      clone = (\<lambda>l. Blueprint),
      split_samples = (\<lambda>k r n cross stratify.
        if k < 2 then Inl ValueError else Inr (replicate r (toy_kfold k n))),
      train_test_split = (\<lambda>inds stratify.
        Inr (take (length inds div 2) inds, drop (length inds div 2) inds)),
      stratified_kfold = (\<lambda>k inds labels.
        if k < 2 then Inl ValueError else Inr (toy_kfold k (length inds))),
      dml_cv_predict = (\<lambda>l xs labels sm.
        Inr (replicate (length xs) (Some (positive_share (map IntLabel labels))))),
      get_bracket_guess = (\<lambda>f start bounds. Inr bounds),
      root_scalar = toy_root_scalar,
      fit = toy_fit,
      predict_zero_one_propensity = toy_predict\<rparr>"

definition toy_data :: "real dataset" where
  "toy_data =
     \<lparr>data_x = [1, 2, 3, 4, 5, 6, 7, 8],
      data_y = [3, 2, 1, 4, 5, 6, 7, 8],
      data_d = [1, 1, 0, 0, 1, 1, 0, 0],
      z_cols = None\<rparr>"

definition toy_args :: "(real, toy_learner) init_args" where
  "toy_args =
     \<lparr>arg_obj_dml_data = DoubleMLData toy_data,
      arg_ml_g = Blueprint, arg_ml_m = Blueprint,
      arg_treatment = PyInt 1, arg_quantile = PyFloat (1 / 2),
      arg_n_folds = 2, arg_n_rep = 1, arg_score = PyStr ''PQ'',
      arg_dml_procedure = ''dml2'',
      arg_trimming_rule = PyStr ''truncate'', arg_trimming_threshold = PyFloat (1 / 100),
      arg_h = PyFloat 1, arg_normalize = PyBool True,
      arg_draw_sample_splitting = True, arg_apply_cross_fitting = True\<rparr>"

text \<open>The object that \<open>__init__\<close> builds from \<open>toy_args\<close>.\<close>

definition toy_pq :: "(real, toy_learner) dml_pq" where
  "toy_pq =
     \<lparr>dml_data = toy_data, n_folds = 2, n_rep = 1, score = ''PQ'', dml_procedure = ''dml2'',
      apply_cross_fitting = True, quantile = 1 / 2, treatment = 1, self_h = BW 1,
      normalize = True, coef_bounds = (1, 8), coef_start_val = 9 / 2,
      trimming_rule = ''truncate'', trimming_threshold = 1 / 100,
      learner_g = Blueprint, learner_m = Blueprint,
      smpls = Some [toy_kfold 2 8]\<rparr>"


text \<open>A bundle of two observations.\<close>

definition toy_psi :: psi_elements where
  "toy_psi =
     \<lparr>psi_ind_d = [True, False], psi_g = [Some (1 / 2), Some (1 / 4)],
      psi_m = [Some (1 / 2), Some (1 / 4)], psi_y = [1, 3]\<rparr>"

subsection \<open>What the spec calls a valid configuration\<close>

text \<open>
  The configuration errors of the spec, argument by argument: the quantile is a float in
  (0, 1); the treatment indicator is 0 or 1; a bandwidth, when one is given (\<open>None\<close> asks
  for the default), is a positive float; the trimming rule is \<open>'truncate'\<close> with a threshold
  in (0, 0.5); the normalize flag is a boolean; the data is a DoubleMLData that is not
  clustered, has no instrumental variable and a treatment column of zeros and ones.
\<close>

definition valid_quantile :: "pyval \<Rightarrow> bool" where
  "valid_quantile v = (case v of PyFloat q \<Rightarrow> 0 < q \<and> q < 1 | _ \<Rightarrow> False)"

definition valid_treatment :: "pyval \<Rightarrow> bool" where
  "valid_treatment v =
     (case v of PyInt t \<Rightarrow> t = 0 \<or> t = 1 | PyBool _ \<Rightarrow> True | _ \<Rightarrow> False)"

definition valid_bandwidth :: "pyval \<Rightarrow> bool" where
  "valid_bandwidth v =
     (case v of PyNone \<Rightarrow> True | PyFloat b \<Rightarrow> 0 < b | PyInf \<Rightarrow> True | _ \<Rightarrow> False)"

definition valid_trimming :: "pyval \<Rightarrow> pyval \<Rightarrow> bool" where
  "valid_trimming rule threshold =
     (rule = PyStr ''truncate'' \<and>
      (case threshold of PyFloat t \<Rightarrow> 0 < t \<and> t < 1 / 2 | _ \<Rightarrow> False))"

definition valid_normalize :: "pyval \<Rightarrow> bool" where
  "valid_normalize v = (case v of PyBool _ \<Rightarrow> True | _ \<Rightarrow> False)"

definition valid_data :: "'x data_obj \<Rightarrow> bool" where
  "valid_data obj =
     (case obj of
        DoubleMLData ds \<Rightarrow> z_cols ds = None \<and> list_all (\<lambda>v. v = 0 \<or> v = 1) (data_d ds)
      | _ \<Rightarrow> False)"

definition valid_config :: "('x, 'l) init_args \<Rightarrow> bool" where
  "valid_config a =
     (valid_quantile (arg_quantile a) \<and> valid_treatment (arg_treatment a)
      \<and> valid_bandwidth (arg_h a)
      \<and> valid_trimming (arg_trimming_rule a) (arg_trimming_threshold a)
      \<and> valid_normalize (arg_normalize a) \<and> valid_data (arg_obj_dml_data a))"

text \<open>The object and the results of \<open>_nuisance_est\<close> on the small sample.\<close>

definition toy_pq_after :: "(real, toy_learner) dml_pq" where
  "toy_pq_after =
     toy_pq\<lparr>coef_start_val := 51 / 16,
            learner_g := Fitted [5] [BoolLabel False],
            learner_m := Fitted [1, 3, 5, 7] [IntLabel 1, IntLabel 0, IntLabel 1, IntLabel 0]\<rparr>"

definition toy_psi_hat :: psi_elements where
  "toy_psi_hat =
     \<lparr>psi_ind_d = [True, True, False, False, True, True, False, False],
      psi_g = replicate 8 (Some 0), psi_m = replicate 8 (Some (1 / 2)),
      psi_y = [3, 2, 1, 4, 5, 6, 7, 8]\<rparr>"

definition toy_preds :: preds where
  "toy_preds = \<lparr>preds_ml_g = replicate 8 (Some 0), preds_ml_m = replicate 8 (Some (1 / 2))\<rparr>"

text \<open>A split of the small sample whose test sets leave row 6 out, and what comes of it.\<close>

definition toy_gap_smpl :: smpl where
  "toy_gap_smpl = [([1, 3, 5, 7], [0, 2, 4]), ([0, 2, 4, 6], [1, 3, 5, 7])]"

definition toy_gap_psi :: psi_elements where
  "toy_gap_psi =
     toy_psi_hat\<lparr>psi_g := [Some 0, Some 0, Some 0, Some 0, Some 0, Some 0, None, Some 0],
                 psi_m := [Some (1 / 2), Some (1 / 2), Some (1 / 2), Some (1 / 2), Some (1 / 2),
                           Some (1 / 2), None, Some (1 / 2)]\<rparr>"

definition toy_gap_preds :: preds where
  "toy_gap_preds =
     \<lparr>preds_ml_g = [Some 0, Some 0, Some 0, Some 0, Some 0, Some 0, None, Some 0],
      preds_ml_m = [Some (1 / 2), Some (1 / 2), Some (1 / 2), Some (1 / 2), Some (1 / 2),
                    Some (1 / 2), None, Some (1 / 2)]\<rparr>"

section \<open>Properties\<close>

subsection \<open>The score\<close>

lemma np_binop_same: "length xs = length ys \<Longrightarrow> np_binop f xs ys = Inr (map2 f xs ys)"
  by (simp add: np_binop_def)

lemma take_rows_ok:
  "list_all (\<lambda>i. i < length xs) inds \<Longrightarrow> take_rows xs inds = Inr (map (\<lambda>i. xs ! i) inds)"
  by (simp add: take_rows_def)

lemma take_rows_bad:
  "\<not> list_all (\<lambda>i. i < length xs) inds \<Longrightarrow> take_rows xs inds = Inl IndexError"
  by (simp add: take_rows_def)

lemma select_rows_ok:
  "list_all (\<lambda>i. i < length xs) (rows_of (length xs) inds) \<Longrightarrow>
   select_rows xs inds = Inr (map (\<lambda>i. xs ! i) (rows_of (length xs) inds))"
  by (cases inds) (simp_all add: take_rows_ok map_nth)

lemma score_entry:
  "fl_sub (fl_add (fl_div (fl_mul (fl_of_bool ind) (fl_sub (fl_of_bool (yi \<le> theta)) gi)) mi) gi)
     (Some q) = spec_score q theta ind gi mi yi"
  by (simp add: spec_score_def fl_sub_def fl_add_def fl_mul_def fl_div_def fl_bin_def
      fl_of_bool_def split: option.splits)

lemma score_pipeline:
  assumes "length ds = k" "length gs = k" "length ms = k" "length ys = k"
  shows "bind_exn (np_binop fl_sub (map (\<lambda>v. fl_of_bool (v \<le> coef)) ys) gs) (\<lambda>t1.
     bind_exn (np_binop fl_mul (map fl_of_bool ds) t1) (\<lambda>t2.
     bind_exn (np_binop fl_div t2 ms) (\<lambda>t3.
     bind_exn (np_binop fl_add t3 gs) (\<lambda>t4.
     Inr (map (\<lambda>v. fl_sub v (Some q)) t4)))))
   = Inr (map (\<lambda>j. spec_score q coef (ds ! j) (gs ! j) (ms ! j) (ys ! j)) [0..<k])"
proof -
  have "map (\<lambda>v. fl_sub v (Some q))
          (map2 fl_add (map2 fl_div (map2 fl_mul (map fl_of_bool ds)
             (map2 fl_sub (map (\<lambda>v. fl_of_bool (v \<le> coef)) ys) gs)) ms) gs)
        = map (\<lambda>j. spec_score q coef (ds ! j) (gs ! j) (ms ! j) (ys ! j)) [0..<k]"
    using assms by (intro nth_equalityI) (simp_all add: score_entry)
  then show ?thesis using assms by (simp add: np_binop_same)
qed

lemma map_nth_rows: "map (\<lambda>j. f (map g rows ! j)) [0..<length rows] = map (\<lambda>i. f (g i)) rows"
  by (rule nth_equalityI) simp_all

lemma compute_score_rows:
  assumes len: "length (psi_ind_d psi) = n" "length (psi_g psi) = n" "length (psi_m psi) = n"
      "length (psi_y psi) = n"
    and ok: "list_all (\<lambda>i. i < n) (rows_of n inds)"
  shows "compute_score self psi coef inds =
     Inr (map (\<lambda>i. spec_score (quantile self) coef (psi_ind_d psi ! i) (psi_g psi ! i)
                    (psi_m psi ! i) (psi_y psi ! i)) (rows_of n inds))"
proof -
  let ?rows = "rows_of n inds"
  let ?k = "length ?rows"
  have sel: "select_rows (psi_ind_d psi) inds = Inr (map (\<lambda>i. psi_ind_d psi ! i) ?rows)"
    "select_rows (psi_g psi) inds = Inr (map (\<lambda>i. psi_g psi ! i) ?rows)"
    "select_rows (psi_m psi) inds = Inr (map (\<lambda>i. psi_m psi ! i) ?rows)"
    "select_rows (psi_y psi) inds = Inr (map (\<lambda>i. psi_y psi ! i) ?rows)"
    using select_rows_ok[of "psi_ind_d psi" inds] select_rows_ok[of "psi_g psi" inds]
      select_rows_ok[of "psi_m psi" inds] select_rows_ok[of "psi_y psi" inds] len ok
    by simp_all
  have "compute_score self psi coef inds =
      Inr (map (\<lambda>j. spec_score (quantile self) coef (map (\<lambda>i. psi_ind_d psi ! i) ?rows ! j)
         (map (\<lambda>i. psi_g psi ! i) ?rows ! j) (map (\<lambda>i. psi_m psi ! i) ?rows ! j)
         (map (\<lambda>i. psi_y psi ! i) ?rows ! j)) [0..<?k])"
    unfolding compute_score_def sel bind_exn.simps
    by (rule score_pipeline) simp_all
  also have "map (\<lambda>j. spec_score (quantile self) coef (map (\<lambda>i. psi_ind_d psi ! i) ?rows ! j)
         (map (\<lambda>i. psi_g psi ! i) ?rows ! j) (map (\<lambda>i. psi_m psi ! i) ?rows ! j)
         (map (\<lambda>i. psi_y psi ! i) ?rows ! j)) [0..<?k]
      = map (\<lambda>i. spec_score (quantile self) coef (psi_ind_d psi ! i) (psi_g psi ! i)
                    (psi_m psi ! i) (psi_y psi ! i)) ?rows"
    by (rule nth_equalityI) simp_all
  finally show ?thesis .
qed

lemma compute_score_bad_rows:
  assumes len: "length (psi_ind_d psi) = n"
    and bad: "\<not> list_all (\<lambda>i. i < n) inds"
  shows "compute_score self psi coef (Some inds) = Inl IndexError"
  unfolding compute_score_def using assms by (simp add: take_rows_bad)

text \<open>
  C1. On a bundle whose four arrays have length \<open>n\<close>, \<open>_compute_score\<close> returns, for each row
  it runs over (all rows, or the rows \<open>inds\<close> in their order), the score of the spec at that
  row: \<open>ind_d[i] * ((y[i] <= theta) - g[i]) / m[i] + g[i] - quantile\<close>.
\<close>

theorem compute_score_elementwise:
  assumes "length (psi_ind_d psi) = n" "length (psi_g psi) = n" "length (psi_m psi) = n"
      "length (psi_y psi) = n"
    and "list_all (\<lambda>i. i < n) (rows_of n inds)"
  shows "compute_score self psi theta inds =
     Inr (map (\<lambda>i. spec_score (quantile self) theta (psi_ind_d psi ! i) (psi_g psi ! i)
                    (psi_m psi ! i) (psi_y psi ! i)) (rows_of n inds))"
  using assms by (rule compute_score_rows)

theorem compute_score_elementwise_witness:
  "length (psi_ind_d toy_psi) = 2 \<and> length (psi_g toy_psi) = 2 \<and> length (psi_m toy_psi) = 2
   \<and> length (psi_y toy_psi) = 2 \<and> list_all (\<lambda>i. i < 2) (rows_of 2 (Some [1, 0, 1]))
   \<and> compute_score toy_pq toy_psi 2 (Some [1, 0, 1]) = Inr [Some (- (1 / 4)), Some 1, Some (- (1 / 4))]"
proof -
  have h: "length (psi_ind_d toy_psi) = 2" "length (psi_g toy_psi) = 2"
    "length (psi_m toy_psi) = 2" "length (psi_y toy_psi) = 2"
    "list_all (\<lambda>i. i < 2) (rows_of 2 (Some [1, 0, 1]))"
    by (simp_all add: toy_psi_def)
  have "compute_score toy_pq toy_psi 2 (Some [1, 0, 1]) =
     Inr (map (\<lambda>i. spec_score (quantile toy_pq) 2 (psi_ind_d toy_psi ! i) (psi_g toy_psi ! i)
                    (psi_m toy_psi ! i) (psi_y toy_psi ! i)) (rows_of 2 (Some [1, 0, 1])))"
    using h by (rule compute_score_elementwise)
  also have "\<dots> = Inr [Some (- (1 / 4)), Some 1, Some (- (1 / 4))]"
    by (simp add: toy_psi_def toy_pq_def spec_score_def)
  finally show ?thesis using h by simp
qed

subsection \<open>Hyperparameter tuning\<close>

text \<open>
  C8. \<open>_nuisance_tuning\<close> raises NotImplementedError whatever its arguments are, and the
  object after the call is the object before it.
\<close>

theorem nuisance_tuning_raises:
  "nuisance_tuning self smpls0 param_grids scoring_methods n_folds_tune n_jobs_cv search_mode
     n_iter_randomized_search = (Inl NotImplementedError, self)"
  by (simp add: nuisance_tuning_def)

subsection \<open>Trimming, and the order of trimming and inverting\<close>

lemma clip_range:
  fixes tau :: real
  assumes "0 < tau" "tau < 1 / 2"
  shows "tau \<le> max tau (min (1 - tau) v)" "max tau (min (1 - tau) v) \<le> 1 - tau"
  using assms by auto

lemma clip_idem:
  fixes tau :: real
  assumes "0 < tau" "tau < 1 / 2"
  shows "max tau (min (1 - tau) (max tau (min (1 - tau) v))) = max tau (min (1 - tau) v)"
  using assms by auto

lemma trimm_ok:
  assumes "0 < tau" "tau < 1 / 2"
  shows "trimm p ''truncate'' tau = Inr (map (map_option (\<lambda>v. max tau (min (1 - tau) v))) p)"
  using assms by (simp add: trimm_def)

text \<open>
  C9. For a threshold \<open>\<tau>\<close> in (0, 0.5) the trimming utility with the rule \<open>'truncate'\<close>
  returns an array of the same length; an entry is NaN exactly where the input is, every
  other entry lies in \<open>[\<tau>, 1 - \<tau>]\<close>, and trimming the result again returns it unchanged.
\<close>

theorem trimm_range_idempotent:
  assumes "0 < tau" "tau < 1 / 2"
  shows "\<exists>r. trimm p ''truncate'' tau = Inr r \<and> length r = length p
           \<and> (\<forall>i < length p. r ! i = None \<longleftrightarrow> p ! i = None)
           \<and> (\<forall>w. Some w \<in> set r \<longrightarrow> tau \<le> w \<and> w \<le> 1 - tau)
           \<and> trimm r ''truncate'' tau = Inr r"
proof -
  let ?c = "\<lambda>v. max tau (min (1 - tau) v)"
  let ?r = "map (map_option ?c) p"
  have 1: "trimm p ''truncate'' tau = Inr ?r" using assms by (rule trimm_ok)
  have 2: "\<forall>i < length p. ?r ! i = None \<longleftrightarrow> p ! i = None" by simp
  have 3: "\<forall>w. Some w \<in> set ?r \<longrightarrow> tau \<le> w \<and> w \<le> 1 - tau"
  proof (intro allI impI)
    fix w assume "Some w \<in> set ?r"
    then obtain x where x: "Some w = map_option ?c x" by auto
    obtain v where "w = ?c v" using x by (cases x) auto
    then show "tau \<le> w \<and> w \<le> 1 - tau" using clip_range[OF assms, of v] by simp
  qed
  have "map (map_option ?c) ?r = ?r"
    using clip_idem[OF assms] by (simp add: option.map_comp comp_def)
  then have 4: "trimm ?r ''truncate'' tau = Inr ?r"
    using trimm_ok[OF assms, of ?r] by simp
  have 5: "length ?r = length p" by simp
  from 1 5 2 3 4 show ?thesis by blast
qed

theorem trimm_range_idempotent_witness:
  "(0 :: real) < 1 / 10 \<and> (1 / 10 :: real) < 1 / 2
   \<and> (\<exists>r. trimm [Some 0, Some (3 / 4), Some 1] ''truncate'' (1 / 10) = Inr r
        \<and> r = [Some (1 / 10), Some (3 / 4), Some (9 / 10)]
        \<and> trimm r ''truncate'' (1 / 10) = Inr r)"
proof -
  have h: "(0 :: real) < 1 / 10" "(1 / 10 :: real) < 1 / 2" by simp_all
  from trimm_range_idempotent[OF h, of "[Some 0, Some (3 / 4), Some 1]"]
  obtain r where r: "trimm [Some 0, Some (3 / 4), Some 1] ''truncate'' (1 / 10) = Inr r"
    "trimm r ''truncate'' (1 / 10) = Inr r" by blast
  have "trimm [Some 0, Some (3 / 4), Some 1] ''truncate'' (1 / 10)
          = Inr [Some (1 / 10), Some (3 / 4), Some (9 / 10)]"
    by (simp add: trimm_def)
  with r have "r = [Some (1 / 10), Some (3 / 4), Some (9 / 10)]" by simp
  with r h show ?thesis by blast
qed


lemma store64_rows: "length (store64 a) = length a"
  "j < length a \<Longrightarrow> store64 a ! j = map_option fl64 (a ! j)"
  by (simp_all add: store64_def)












subsection \<open>Evaluation on a subset of the rows\<close>

lemma take_rows_map_upt:
  "list_all (\<lambda>i. i < n) inds \<Longrightarrow> take_rows (map f [0..<n]) inds = Inr (map f inds)"
  by (simp add: take_rows_def list_all_iff)

lemma take_rows_map_upt_bad:
  "\<not> list_all (\<lambda>i. i < n) inds \<Longrightarrow> take_rows (map f [0..<n]) inds = Inl IndexError"
  by (simp add: take_rows_def)

lemma rows_of_None_ok: "list_all (\<lambda>i. i < n) (rows_of n None)"
  by (simp add: list_all_iff)

lemma compute_score_restrict:
  assumes len: "length (psi_ind_d psi) = n" "length (psi_g psi) = n" "length (psi_m psi) = n"
      "length (psi_y psi) = n"
  shows "compute_score self psi theta (Some inds) =
         bind_exn (compute_score self psi theta None) (\<lambda>r. take_rows r inds)"
proof (cases "list_all (\<lambda>i. i < n) inds")
  case True
  then show ?thesis
    using compute_score_rows[OF len, of "Some inds" self theta]
      compute_score_rows[OF len rows_of_None_ok, of self theta]
    by (simp add: take_rows_map_upt)
next
  case False
  then show ?thesis
    using compute_score_bad_rows[OF len(1) False, of self theta]
      compute_score_rows[OF len rows_of_None_ok, of self theta]
    by (simp add: take_rows_map_upt_bad)
qed

text \<open>One entry of the derivative when the weights are not normalized.\<close>

lemma deriv_pipeline_plain:
  assumes "length ds = k" "length ms = k" "length ys = k" "\<not> nrm"
  shows "bind_exn (np_binop fl_div (map fl_of_bool ds) ms) (\<lambda>score_weights.
       let normalization = np_mean score_weights;
           score_weights1 = (if nrm
                             then map (\<lambda>w. fl_div w normalization) score_weights
                             else score_weights);
           u = map (\<lambda>v. div_bw (Some (v - coef)) hb) ys;
           kernel_est = map (map_option gauss_kernel) u
       in bind_exn (np_binop fl_mul score_weights1 kernel_est) (\<lambda>t.
          Inr (map (\<lambda>v. div_bw v hb) t)))
    = Inr (map (\<lambda>j. div_bw (fl_mul (fl_div (fl_of_bool (ds ! j)) (ms ! j))
                         (map_option gauss_kernel (div_bw (Some (ys ! j - coef)) hb))) hb) [0..<k])"
proof -
  have "map (\<lambda>v. div_bw v hb)
          (map2 fl_mul (map2 fl_div (map fl_of_bool ds) ms)
             (map (map_option gauss_kernel) (map (\<lambda>v. div_bw (Some (v - coef)) hb) ys)))
        = map (\<lambda>j. div_bw (fl_mul (fl_div (fl_of_bool (ds ! j)) (ms ! j))
                         (map_option gauss_kernel (div_bw (Some (ys ! j - coef)) hb))) hb) [0..<k]"
    using assms by (intro nth_equalityI) simp_all
  then show ?thesis using assms by (simp add: np_binop_same Let_def del: map_map)
qed

lemma deriv_plain_rows:
  assumes len: "length (psi_ind_d psi) = n" "length (psi_m psi) = n" "length (psi_y psi) = n"
    and ok: "list_all (\<lambda>i. i < n) (rows_of n inds)" and nrm: "\<not> normalize self"
  shows "compute_score_deriv self psi coef inds =
     Inr (map (\<lambda>i. div_bw (fl_mul (fl_div (fl_of_bool (psi_ind_d psi ! i)) (psi_m psi ! i))
            (map_option gauss_kernel (div_bw (Some (psi_y psi ! i - coef)) (self_h self))))
            (self_h self)) (rows_of n inds))"
proof -
  let ?rows = "rows_of n inds"
  let ?k = "length ?rows"
  let ?ds = "map (\<lambda>i. psi_ind_d psi ! i) ?rows"
  let ?ms = "map (\<lambda>i. psi_m psi ! i) ?rows"
  let ?ys = "map (\<lambda>i. psi_y psi ! i) ?rows"
  have sel: "select_rows (psi_ind_d psi) inds = Inr ?ds"
    "select_rows (psi_m psi) inds = Inr ?ms"
    "select_rows (psi_y psi) inds = Inr ?ys"
    using select_rows_ok[of "psi_ind_d psi" inds]
      select_rows_ok[of "psi_m psi" inds] select_rows_ok[of "psi_y psi" inds] len ok
    by simp_all
  have "compute_score_deriv self psi coef inds =
      Inr (map (\<lambda>j. div_bw (fl_mul (fl_div (fl_of_bool (?ds ! j)) (?ms ! j))
                         (map_option gauss_kernel (div_bw (Some (?ys ! j - coef)) (self_h self))))
                 (self_h self)) [0..<?k])"
    unfolding compute_score_deriv_def sel bind_exn.simps
    by (rule deriv_pipeline_plain) (simp_all add: nrm)
  also have "map (\<lambda>j. div_bw (fl_mul (fl_div (fl_of_bool (?ds ! j)) (?ms ! j))
                         (map_option gauss_kernel (div_bw (Some (?ys ! j - coef)) (self_h self))))
                 (self_h self)) [0..<?k]
     = map (\<lambda>i. div_bw (fl_mul (fl_div (fl_of_bool (psi_ind_d psi ! i)) (psi_m psi ! i))
            (map_option gauss_kernel (div_bw (Some (psi_y psi ! i - coef)) (self_h self))))
            (self_h self)) ?rows"
    by (rule nth_equalityI) simp_all
  finally show ?thesis .
qed

lemma deriv_bad_rows:
  assumes len: "length (psi_ind_d psi) = n"
    and bad: "\<not> list_all (\<lambda>i. i < n) inds"
  shows "compute_score_deriv self psi coef (Some inds) = Inl IndexError"
  unfolding compute_score_deriv_def using assms by (simp add: take_rows_bad)

lemma deriv_plain_restrict:
  assumes len: "length (psi_ind_d psi) = n" "length (psi_m psi) = n" "length (psi_y psi) = n"
    and nrm: "\<not> normalize self"
  shows "compute_score_deriv self psi theta (Some inds) =
         bind_exn (compute_score_deriv self psi theta None) (\<lambda>r. take_rows r inds)"
proof (cases "list_all (\<lambda>i. i < n) inds")
  case True
  then show ?thesis
    using deriv_plain_rows[OF len _ nrm, of "Some inds" theta]
      deriv_plain_rows[OF len rows_of_None_ok nrm, of theta]
    by (simp add: take_rows_map_upt)
next
  case False
  then show ?thesis
    using deriv_bad_rows[OF len(1) False, of self theta]
      deriv_plain_rows[OF len rows_of_None_ok nrm, of theta]
    by (simp add: take_rows_map_upt_bad)
qed

lemma toy_deriv_subset:
  "compute_score_deriv toy_pq toy_psi 1 (Some [0]) = Inr [Some (1 / sqrt (2 * pi))]"
  by (simp add: compute_score_deriv_def toy_pq_def toy_psi_def take_rows_def np_binop_def
      np_mean_def fl_sum_def fl_add_def fl_mul_def fl_div_def fl_bin_def fl_of_bool_def
      gauss_kernel_def Let_def)

lemma toy_deriv_whole:
  "compute_score_deriv toy_pq toy_psi 1 None
     = Inr [Some (2 / sqrt (2 * pi)), Some 0]"
  by (simp add: compute_score_deriv_def toy_pq_def toy_psi_def take_rows_def np_binop_def
      np_mean_def fl_sum_def fl_add_def fl_mul_def fl_div_def fl_bin_def fl_of_bool_def
      gauss_kernel_def Let_def)

text \<open>
  C10. On a bundle whose arrays have length \<open>n\<close>, evaluating \<open>_compute_score\<close> on the rows
  \<open>inds\<close> is evaluating it on all rows and taking the rows \<open>inds\<close> of the result (both raise
  IndexError when a position is out of range); the same holds for \<open>_compute_score_deriv\<close>
  when the weights are not normalized. With normalization the weights of a subset are
  divided by the subset's own mean: on the two-row bundle \<open>toy_psi\<close> the derivative at row
  0 alone differs from row 0 of the derivative on both rows.
\<close>

theorem subset_restriction:
  "(length (psi_ind_d psi) = n \<and> length (psi_g psi) = n \<and> length (psi_m psi) = n
      \<and> length (psi_y psi) = n \<longrightarrow>
      compute_score self psi theta (Some inds) =
        bind_exn (compute_score self psi theta None) (\<lambda>r. take_rows r inds))
   \<and> (length (psi_ind_d psi) = n \<and> length (psi_m psi) = n \<and> length (psi_y psi) = n
        \<and> \<not> normalize self \<longrightarrow>
      compute_score_deriv self psi theta (Some inds) =
        bind_exn (compute_score_deriv self psi theta None) (\<lambda>r. take_rows r inds))
   \<and> normalize toy_pq
   \<and> compute_score_deriv toy_pq toy_psi 1 (Some [0]) \<noteq>
        bind_exn (compute_score_deriv toy_pq toy_psi 1 None) (\<lambda>r. take_rows r [0])"
proof (intro conjI impI)
  assume "length (psi_ind_d psi) = n \<and> length (psi_g psi) = n \<and> length (psi_m psi) = n
      \<and> length (psi_y psi) = n"
  then show "compute_score self psi theta (Some inds) =
        bind_exn (compute_score self psi theta None) (\<lambda>r. take_rows r inds)"
    using compute_score_restrict[of psi n self theta inds] by blast
next
  assume "length (psi_ind_d psi) = n \<and> length (psi_m psi) = n \<and> length (psi_y psi) = n
        \<and> \<not> normalize self"
  then show "compute_score_deriv self psi theta (Some inds) =
        bind_exn (compute_score_deriv self psi theta None) (\<lambda>r. take_rows r inds)"
    using deriv_plain_restrict[of psi n self theta inds] by blast
next
  show "normalize toy_pq" by (simp add: toy_pq_def)
next
  have "(1 :: real) / sqrt (2 * pi) \<noteq> 2 / sqrt (2 * pi)" by simp
  then show "compute_score_deriv toy_pq toy_psi 1 (Some [0]) \<noteq>
        bind_exn (compute_score_deriv toy_pq toy_psi 1 None) (\<lambda>r. take_rows r [0])"
    unfolding toy_deriv_subset toy_deriv_whole by (simp add: take_rows_def)
qed

theorem subset_restriction_witness:
  "length (psi_ind_d toy_psi) = 2 \<and> length (psi_g toy_psi) = 2 \<and> length (psi_m toy_psi) = 2
   \<and> length (psi_y toy_psi) = 2 \<and> \<not> normalize (toy_pq\<lparr>normalize := False\<rparr>)
   \<and> compute_score (toy_pq\<lparr>normalize := False\<rparr>) toy_psi 2 (Some [1]) =
        bind_exn (compute_score (toy_pq\<lparr>normalize := False\<rparr>) toy_psi 2 None)
          (\<lambda>r. take_rows r [1])
   \<and> compute_score_deriv (toy_pq\<lparr>normalize := False\<rparr>) toy_psi 2 (Some [1]) =
        bind_exn (compute_score_deriv (toy_pq\<lparr>normalize := False\<rparr>) toy_psi 2 None)
          (\<lambda>r. take_rows r [1])"
proof -
  have h: "length (psi_ind_d toy_psi) = 2" "length (psi_g toy_psi) = 2"
    "length (psi_m toy_psi) = 2" "length (psi_y toy_psi) = 2"
    "\<not> normalize (toy_pq\<lparr>normalize := False\<rparr>)"
    by (simp_all add: toy_psi_def)
  show ?thesis
    using h subset_restriction[of toy_psi 2 "toy_pq\<lparr>normalize := False\<rparr>" 2 "[1]"]
    by blast
qed

subsection \<open>The derivative of the score\<close>

lemma fl_sum_Some_aux: "foldl fl_add (Some a) (map Some xs) = Some (a + sum_list xs)"
  by (induction xs arbitrary: a) (simp_all add: fl_add_def fl_bin_def add.assoc)

lemma np_mean_Some:
  "xs \<noteq> [] \<Longrightarrow> np_mean (map Some xs) = Some (sum_list xs / real (length xs))"
  by (simp add: np_mean_def fl_sum_def fl_sum_Some_aux fl_div_def)

lemma weights_finite:
  assumes "length ds = length mv" "0 \<notin> set mv"
  shows "np_binop fl_div (map fl_of_bool ds) (map Some mv)
         = Inr (map Some (map2 spec_weight ds mv))"
proof -
  have "map2 fl_div (map fl_of_bool ds) (map Some mv) = map Some (map2 spec_weight ds mv)"
  proof (rule nth_equalityI)
    show "length (map2 fl_div (map fl_of_bool ds) (map Some mv))
          = length (map Some (map2 spec_weight ds mv))"
      using assms by simp
  next
    fix i assume "i < length (map2 fl_div (map fl_of_bool ds) (map Some mv))"
    then have i: "i < length ds" "i < length mv" by simp_all
    then have "mv ! i \<noteq> 0" using assms(2) by (metis nth_mem)
    then show "map2 fl_div (map fl_of_bool ds) (map Some mv) ! i
               = map Some (map2 spec_weight ds mv) ! i"
      using i by (simp add: spec_weight_def fl_div_def fl_of_bool_def)
  qed
  then show ?thesis using assms(1) by (simp add: np_binop_same)
qed

lemma gauss_kernel_density: "gauss_kernel u = std_normal_density u"
  by (simp add: gauss_kernel_def std_normal_density_def)

lemma deriv_pipeline_finite:
  assumes len: "length ds = k" "length mv = k" "length ys = k"
    and nz: "0 \<notin> set mv" and b: "b \<noteq> 0"
    and nrm: "nrm \<Longrightarrow> sum_list (map2 spec_weight ds mv) \<noteq> 0"
  shows "bind_exn (np_binop fl_div (map fl_of_bool ds) (map Some mv)) (\<lambda>score_weights.
       let normalization = np_mean score_weights;
           score_weights1 = (if nrm
                             then map (\<lambda>w. fl_div w normalization) score_weights
                             else score_weights);
           u = map (\<lambda>v. div_bw (Some (v - coef)) (BW b)) ys;
           kernel_est = map (map_option gauss_kernel) u
       in bind_exn (np_binop fl_mul score_weights1 kernel_est) (\<lambda>t.
          Inr (map (\<lambda>v. div_bw v (BW b)) t)))
    = Inr (map (\<lambda>j. Some ((if nrm then map2 spec_weight ds mv ! j
                                      / (sum_list (map2 spec_weight ds mv) / real k)
                               else map2 spec_weight ds mv ! j)
                         * (std_normal_density ((ys ! j - coef) / b) / b))) [0..<k])"
proof -
  let ?wl = "map2 spec_weight ds mv"
  have lw: "length ?wl = k" using len by simp
  have w: "np_binop fl_div (map fl_of_bool ds) (map Some mv) = Inr (map Some ?wl)"
    using weights_finite len nz by simp
  show ?thesis
  proof (cases nrm)
    case False
    have "map (\<lambda>v. div_bw v (BW b))
            (map2 fl_mul (map Some ?wl)
               (map (map_option gauss_kernel) (map (\<lambda>v. div_bw (Some (v - coef)) (BW b)) ys)))
          = map (\<lambda>j. Some (?wl ! j * (std_normal_density ((ys ! j - coef) / b) / b))) [0..<k]"
      using len lw b
      by (intro nth_equalityI)
        (simp_all add: fl_div_def fl_mul_def fl_bin_def gauss_kernel_density)
    then show ?thesis
      using False len lw unfolding w by (simp add: Let_def np_binop_same del: map_map)
  next
    case True
    then have s: "sum_list ?wl \<noteq> 0" using nrm by simp
    then have ne: "?wl \<noteq> []" by auto
    then have k: "k \<noteq> 0" using lw by auto
    have nz': "sum_list ?wl / real k \<noteq> 0" using s k by simp
    have mean: "np_mean (map Some ?wl) = Some (sum_list ?wl / real k)"
      using np_mean_Some[OF ne] lw by simp
    have "map (\<lambda>v. div_bw v (BW b))
            (map2 fl_mul (map (\<lambda>w. fl_div w (Some (sum_list ?wl / real k))) (map Some ?wl))
               (map (map_option gauss_kernel) (map (\<lambda>v. div_bw (Some (v - coef)) (BW b)) ys)))
          = map (\<lambda>j. Some (?wl ! j / (sum_list ?wl / real k)
                  * (std_normal_density ((ys ! j - coef) / b) / b))) [0..<k]"
      using len lw b nz'
      by (intro nth_equalityI)
        (simp_all add: fl_div_def fl_mul_def fl_bin_def gauss_kernel_density)
    then show ?thesis
      using True len lw unfolding w by (simp add: Let_def mean np_binop_same del: map_map)
  qed
qed

lemma bind_exn_Inr_iff: "(bind_exn c f = Inr r) = (\<exists>v. c = Inr v \<and> f v = Inr r)"
  by (cases c) auto

lemma map2_nth_rows:
  "map2 f (map (\<lambda>i. xs ! i) rows) (map (\<lambda>i. ys ! i) rows) = map (\<lambda>i. f (xs ! i) (ys ! i)) rows"
  by (rule nth_equalityI) simp_all

lemma deriv_rows_finite:
  assumes len: "length (psi_ind_d psi) = n" "length (psi_y psi) = n"
    and m: "psi_m psi = map Some mv" "length mv = n" "0 \<notin> set mv"
    and h: "self_h self = BW b" "b \<noteq> 0"
    and ok: "list_all (\<lambda>i. i < n) (rows_of n inds)"
    and nz: "normalize self \<Longrightarrow>
       sum_list (map (\<lambda>j. spec_weight (psi_ind_d psi ! j) (mv ! j)) (rows_of n inds)) \<noteq> 0"
  shows "compute_score_deriv self psi theta inds =
     Inr (map (\<lambda>i. Some ((if normalize self
                          then spec_weight (psi_ind_d psi ! i) (mv ! i)
                               / (sum_list (map (\<lambda>j. spec_weight (psi_ind_d psi ! j) (mv ! j))
                                     (rows_of n inds)) / real (length (rows_of n inds)))
                          else spec_weight (psi_ind_d psi ! i) (mv ! i))
                         * (std_normal_density ((psi_y psi ! i - theta) / b) / b)))
            (rows_of n inds))"
proof -
  let ?rows = "rows_of n inds"
  let ?k = "length ?rows"
  let ?ds = "map (\<lambda>i. psi_ind_d psi ! i) ?rows"
  let ?mvs = "map (\<lambda>i. mv ! i) ?rows"
  let ?ys = "map (\<lambda>i. psi_y psi ! i) ?rows"
  let ?w = "\<lambda>i. spec_weight (psi_ind_d psi ! i) (mv ! i)"
  have lm: "length (psi_m psi) = n" using m by simp
  have in_range: "\<And>i. i \<in> set ?rows \<Longrightarrow> i < n" using ok by (simp add: list_all_iff)
  have ms: "map (\<lambda>i. psi_m psi ! i) ?rows = map Some ?mvs"
    using in_range m by (simp add: m(1))
  have sel: "select_rows (psi_ind_d psi) inds = Inr ?ds"
    "select_rows (psi_m psi) inds = Inr (map Some ?mvs)"
    "select_rows (psi_y psi) inds = Inr ?ys"
    using select_rows_ok[of "psi_ind_d psi" inds]
      select_rows_ok[of "psi_m psi" inds] select_rows_ok[of "psi_y psi" inds] len lm ok ms
    by simp_all
  have wl: "map2 spec_weight ?ds ?mvs = map ?w ?rows" by (rule map2_nth_rows)
  have nz0: "0 \<notin> set ?mvs"
  proof
    assume "0 \<in> set ?mvs"
    then obtain i where "i \<in> set ?rows" "mv ! i = 0" by auto
    then show False using in_range m(2,3) by (metis nth_mem)
  qed
  have nz': "normalize self \<Longrightarrow> sum_list (map2 spec_weight ?ds ?mvs) \<noteq> 0"
    unfolding wl by (rule nz)
  have "compute_score_deriv self psi theta inds =
      Inr (map (\<lambda>j. Some ((if normalize self then map2 spec_weight ?ds ?mvs ! j
                                      / (sum_list (map2 spec_weight ?ds ?mvs) / real ?k)
                               else map2 spec_weight ?ds ?mvs ! j)
                         * (std_normal_density ((?ys ! j - theta) / b) / b))) [0..<?k])"
    unfolding compute_score_deriv_def sel bind_exn.simps h(1)
    by (rule deriv_pipeline_finite[OF _ _ _ nz0 h(2) nz']) simp_all
  also have "map (\<lambda>j. Some ((if normalize self then map2 spec_weight ?ds ?mvs ! j
                                      / (sum_list (map2 spec_weight ?ds ?mvs) / real ?k)
                               else map2 spec_weight ?ds ?mvs ! j)
                         * (std_normal_density ((?ys ! j - theta) / b) / b))) [0..<?k]
     = map (\<lambda>i. Some ((if normalize self then ?w i / (sum_list (map ?w ?rows) / real ?k)
                          else ?w i)
                         * (std_normal_density ((psi_y psi ! i - theta) / b) / b))) ?rows"
    unfolding wl by (rule nth_equalityI) simp_all
  finally show ?thesis .
qed

lemma init_default_bandwidth:
  assumes "init E a = Inr s" "arg_h a = PyNone"
  shows "self_h s = BW (real (n_obs (dml_data s)) powr (- (2 / 10))) \<and> 0 < n_obs (dml_data s)"
proof -
  from assms(1) obtain h1 ds h2 where
    h1: "bind_exn (dataset_of (arg_obj_dml_data a)) (\<lambda>ds. Inr (np_power_n_obs (n_obs ds))) = Inr h1"
    and ds: "check_data (arg_obj_dml_data a) = Inr ds"
    and h2: "check_bandwidth h1 = Inr h2"
    and y: "data_y ds \<noteq> []"
    and s: "dml_data s = ds" "self_h s = h2"
    unfolding init_def super_init_def Let_def using assms(2)
    by (auto simp: bind_exn_Inr_iff split: if_splits prod.splits)
  from ds have "dataset_of (arg_obj_dml_data a) = Inr ds"
    by (cases "arg_obj_dml_data a")
      (auto simp: check_data_def bind_exn_Inr_iff)
  with h1 have "h1 = np_power_n_obs (n_obs ds)" by simp
  moreover have "0 < n_obs ds" using y by (simp add: n_obs_def)
  ultimately show ?thesis using h2 s
    by (simp add: np_power_n_obs_def check_bandwidth_def)
qed


lemma toy_init_parts:
  "check_data (DoubleMLData toy_data) = Inr toy_data"
  "n_obs toy_data = 8"
  "data_y toy_data \<noteq> []"
  "Min (set (data_y toy_data)) = 1"
  "Max (set (data_y toy_data)) = 8"
  "np_quantile (data_y toy_data) (1 / 2) = 9 / 2"
  "toy_kfold 2 8 = [([1, 3, 5, 7], [0, 2, 4, 6]), ([0, 2, 4, 6], [1, 3, 5, 7])]"
  by code_simp+

lemma toy_init_default:
  "init toy_env (toy_args\<lparr>arg_h := PyNone\<rparr>)
     = Inr (toy_pq\<lparr>self_h := BW (8 powr (- (2 / 10)))\<rparr>)"
  by (simp add: init_def super_init_def toy_env_def toy_args_def toy_pq_def toy_init_parts check_score_def
      check_quantile_def check_treatment_def check_bandwidth_def check_trimming_def
      np_power_n_obs_def Let_def not_le)

text \<open>
  C2. On a bundle whose arrays have length \<open>n\<close>, with propensities that are numbers other
  than 0 and a finite bandwidth \<open>h\<close> other than 0, \<open>_compute_score_deriv\<close> returns for each
  row it runs over the weight \<open>ind_d[i] / m[i]\<close>, divided by the mean of the weights of
  these rows when \<open>normalize\<close> is set (the mean then has to differ from 0) and left as it is
  otherwise, times the Gaussian kernel density \<open>\<phi>((y[i] - theta) / h) / h\<close>. A constructor
  call with \<open>h = None\<close> that succeeds stores the bandwidth \<open>n_obs ^ (-0.2)\<close>.
\<close>

theorem compute_score_deriv_formula:
  "(length (psi_ind_d psi) = n \<and> length (psi_y psi) = n \<and> psi_m psi = map Some mv
      \<and> length mv = n \<and> 0 \<notin> set mv \<and> self_h self = BW b \<and> b \<noteq> 0
      \<and> list_all (\<lambda>i. i < n) (rows_of n inds)
      \<and> (normalize self \<longrightarrow>
           sum_list (map (\<lambda>j. spec_weight (psi_ind_d psi ! j) (mv ! j)) (rows_of n inds)) \<noteq> 0)
    \<longrightarrow> compute_score_deriv self psi theta inds =
     Inr (map (\<lambda>i. Some ((if normalize self
                          then spec_weight (psi_ind_d psi ! i) (mv ! i)
                               / (sum_list (map (\<lambda>j. spec_weight (psi_ind_d psi ! j) (mv ! j))
                                     (rows_of n inds)) / real (length (rows_of n inds)))
                          else spec_weight (psi_ind_d psi ! i) (mv ! i))
                         * (std_normal_density ((psi_y psi ! i - theta) / b) / b)))
            (rows_of n inds)))
   \<and> (init E a = Inr s \<and> arg_h a = PyNone \<longrightarrow>
        self_h s = BW (real (n_obs (dml_data s)) powr (- (2 / 10))))"
  using deriv_rows_finite[of psi n mv self b inds theta] init_default_bandwidth[of E a s]
  by blast

theorem compute_score_deriv_formula_witness:
  "length (psi_ind_d toy_psi) = 2 \<and> length (psi_y toy_psi) = 2
   \<and> psi_m toy_psi = map Some [1 / 2, 1 / 4] \<and> length [1 / 2, 1 / 4 :: real] = 2
   \<and> 0 \<notin> set [1 / 2, 1 / 4 :: real] \<and> self_h toy_pq = BW 1 \<and> (1 :: real) \<noteq> 0
   \<and> list_all (\<lambda>i. i < 2) (rows_of 2 None) \<and> normalize toy_pq
   \<and> sum_list (map (\<lambda>j. spec_weight (psi_ind_d toy_psi ! j) ([1 / 2, 1 / 4] ! j))
         (rows_of 2 None)) = 2
   \<and> compute_score_deriv toy_pq toy_psi 1 None = Inr [Some (2 / sqrt (2 * pi)), Some 0]
   \<and> init toy_env (toy_args\<lparr>arg_h := PyNone\<rparr>)
        = Inr (toy_pq\<lparr>self_h := BW (8 powr (- (2 / 10)))\<rparr>)
   \<and> arg_h (toy_args\<lparr>arg_h := PyNone\<rparr>) = PyNone
   \<and> self_h (toy_pq\<lparr>self_h := BW (8 powr (- (2 / 10)))\<rparr>)
        = BW (real (n_obs (dml_data (toy_pq\<lparr>self_h := BW (8 powr (- (2 / 10)))\<rparr>)))
               powr (- (2 / 10)))"
proof -
  let ?s = "toy_pq\<lparr>self_h := BW (8 powr (- (2 / 10)))\<rparr>"
  have h: "length (psi_ind_d toy_psi) = 2" "length (psi_y toy_psi) = 2"
    "psi_m toy_psi = map Some [1 / 2, 1 / 4]" "length [1 / 2, 1 / 4 :: real] = 2"
    "0 \<notin> set [1 / 2, 1 / 4 :: real]" "self_h toy_pq = BW 1" "(1 :: real) \<noteq> 0"
    "list_all (\<lambda>i. i < 2) (rows_of 2 None)" "normalize toy_pq"
    by (simp_all add: toy_psi_def toy_pq_def list_all_iff)
  have sum: "sum_list (map (\<lambda>j. spec_weight (psi_ind_d toy_psi ! j) ([1 / 2, 1 / 4] ! j))
         (rows_of 2 None)) = 2"
    by (simp add: toy_psi_def spec_weight_def numeral_2_eq_2)
  have i: "init toy_env (toy_args\<lparr>arg_h := PyNone\<rparr>) = Inr ?s"
    "arg_h (toy_args\<lparr>arg_h := PyNone\<rparr>) = PyNone"
    by (simp_all add: toy_init_default)
  have d: "compute_score_deriv toy_pq toy_psi 1 None = Inr [Some (2 / sqrt (2 * pi)), Some 0]"
    by (rule toy_deriv_whole)
  have "self_h ?s = BW (real (n_obs (dml_data ?s)) powr (- (2 / 10)))"
    using compute_score_deriv_formula[of toy_psi 2 "[1 / 2, 1 / 4]" toy_pq 1 None 1 toy_env
        "toy_args\<lparr>arg_h := PyNone\<rparr>" ?s] i
    by blast
  then show ?thesis using h sum i d by simp
qed

subsection \<open>The constructor refuses an invalid configuration\<close>

lemma check_quantile_valid: "check_quantile v = Inr q \<Longrightarrow> valid_quantile v"
  by (cases v) (auto simp: check_quantile_def valid_quantile_def split: if_splits)

lemma check_treatment_valid: "check_treatment v = Inr t \<Longrightarrow> valid_treatment v"
  by (cases v) (auto simp: check_treatment_def valid_treatment_def split: if_splits)

lemma check_bandwidth_valid:
  "check_bandwidth v = Inr hb \<Longrightarrow> v \<noteq> PyNaN \<Longrightarrow> valid_bandwidth v"
  by (cases v) (auto simp: check_bandwidth_def valid_bandwidth_def split: if_splits)

lemma check_trimming_valid: "check_trimming rule thr = Inr r \<Longrightarrow> valid_trimming rule thr"
  by (cases rule; cases thr)
    (auto simp: check_trimming_def valid_trimming_def split: if_splits)

lemma check_data_valid:
  "check_data obj = Inr ds \<Longrightarrow> \<not> (case obj of DoubleMLClusterData _ \<Rightarrow> True | _ \<Rightarrow> False)
     \<Longrightarrow> valid_data obj"
  by (cases obj)
    (auto simp: check_data_def valid_data_def check_contains_iv_def
      check_zero_one_treatment_def bind_exn_Inr_iff split: if_splits)

lemma init_Inr_valid:
  assumes "init E a = Inr s" "arg_h a \<noteq> PyNaN"
  shows "valid_config a"
proof -
  from assms(1) obtain h1 ds q t h2 nb r where
    h1: "(if arg_h a = PyNone
          then bind_exn (dataset_of (arg_obj_dml_data a)) (\<lambda>ds. Inr (np_power_n_obs (n_obs ds)))
          else Inr (arg_h a)) = Inr h1"
    and cl: "\<not> (case arg_obj_dml_data a of DoubleMLClusterData _ \<Rightarrow> True | _ \<Rightarrow> False)"
    and ds: "check_data (arg_obj_dml_data a) = Inr ds"
    and q: "check_quantile (arg_quantile a) = Inr q"
    and t: "check_treatment (arg_treatment a) = Inr t"
    and h2: "check_bandwidth h1 = Inr h2"
    and nb: "(case arg_normalize a of PyBool b \<Rightarrow> Inr b | _ \<Rightarrow> Inl TypeError) = Inr nb"
    and r: "check_trimming (arg_trimming_rule a) (arg_trimming_threshold a) = Inr r"
    unfolding init_def super_init_def Let_def
    by (auto simp: bind_exn_Inr_iff split: if_splits)
  have "valid_bandwidth (arg_h a)"
  proof (cases "arg_h a = PyNone")
    case True
    then show ?thesis by (simp add: valid_bandwidth_def)
  next
    case False
    with h1 h2 assms(2) show ?thesis by (simp add: check_bandwidth_valid)
  qed
  moreover have "valid_normalize (arg_normalize a)"
    using nb by (cases "arg_normalize a") (simp_all add: valid_normalize_def)
  ultimately show ?thesis
    using check_quantile_valid[OF q] check_treatment_valid[OF t] check_trimming_valid[OF r]
      check_data_valid[OF ds cl]
    by (simp add: valid_config_def)
qed

text \<open>
  Apart from a NaN bandwidth, every configuration the spec calls invalid makes the
  constructor raise: no object is built, so nothing is left to fail at fit time. The
  checks of the quantile, the treatment, the trimming and the data are the ones modelled
  from the spec; \<open>_check_bandwidth\<close> and the order of the checks are the source's.
\<close>

lemma init_raises_unless_nan_bandwidth:
  assumes "\<not> valid_config a" "arg_h a \<noteq> PyNaN"
  shows "\<exists>e. init E a = Inl e"
proof (cases "init E a")
  case (Inl e)
  then show ?thesis by blast
next
  case (Inr s)
  then have "valid_config a" using assms(2) by (rule init_Inr_valid)
  with assms(1) show ?thesis by simp
qed

lemma toy_init_invalid:
  "init toy_env (toy_args\<lparr>arg_quantile := PyFloat (3 / 2)\<rparr>) = Inl ValueError"
  "init toy_env (toy_args\<lparr>arg_obj_dml_data := DoubleMLClusterData toy_data\<rparr>)
     = Inl NotImplementedError"
  "init toy_env (toy_args\<lparr>arg_h := PyFloat 0\<rparr>) = Inl ValueError"
  "init toy_env (toy_args\<lparr>arg_h := PyInt 1\<rparr>) = Inl TypeError"
  by code_simp+

text \<open>
  C7 at the bandwidth \<open>h = float('nan')\<close>, every other argument valid: NaN is not a positive
  float, and the constructor does not raise. \<open>_check_bandwidth\<close> means to refuse what is
  not positive but tests \<open>bandwidth <= 0\<close>, which is false for NaN, so the object is built
  with \<open>_h = nan\<close>.
\<close>

theorem init_accepts_nan_bandwidth:
  "\<not> valid_bandwidth PyNaN
   \<and> \<not> valid_config (toy_args\<lparr>arg_h := PyNaN\<rparr>)
   \<and> check_bandwidth PyNaN = Inr BWNaN
   \<and> init toy_env (toy_args\<lparr>arg_h := PyNaN\<rparr>) = Inr (toy_pq\<lparr>self_h := BWNaN\<rparr>)"
proof -
  have 1: "\<not> valid_bandwidth PyNaN" by (simp add: valid_bandwidth_def)
  then have 2: "\<not> valid_config (toy_args\<lparr>arg_h := PyNaN\<rparr>)"
    by (simp add: valid_config_def)
  have 3: "check_bandwidth PyNaN = Inr BWNaN" by (simp add: check_bandwidth_def)
  have 4: "init toy_env (toy_args\<lparr>arg_h := PyNaN\<rparr>) = Inr (toy_pq\<lparr>self_h := BWNaN\<rparr>)"
    by code_simp
  show ?thesis using 1 2 3 4 by simp
qed

subsection \<open>Nuisance estimation fold by fold\<close>

lemma fold_pairs_length: "length (fold (\<lambda>(i, v) b. b[i := v]) ps a) = length a"
  by (induction ps arbitrary: a) (auto split: prod.splits)

lemma fold_pairs_notin:
  "j \<notin> fst ` set ps \<Longrightarrow> fold (\<lambda>(i, v) b. b[i := v]) ps a ! j = a ! j"
  by (induction ps arbitrary: a) (auto split: prod.splits)

lemma fold_pairs_in:
  "j \<in> fst ` set ps \<Longrightarrow> j < length a \<Longrightarrow> fold (\<lambda>(i, v) b. b[i := v]) ps a ! j \<in> snd ` set ps"
proof (induction ps arbitrary: a)
  case Nil
  then show ?case by simp
next
  case (Cons p ps)
  obtain i v where p: "p = (i, v)" by (cases p)
  show ?case
  proof (cases "j \<in> fst ` set ps")
    case True
    then have "fold (\<lambda>(i, v) b. b[i := v]) ps (a[i := v]) ! j \<in> snd ` set ps"
      using Cons.IH[of "a[i := v]"] Cons.prems(2) by simp
    then show ?thesis by (simp add: p)
  next
    case False
    then have j: "j = i" using Cons.prems(1) by (simp add: p)
    have "fold (\<lambda>(i, v) b. b[i := v]) ps (a[i := v]) ! j = a[i := v] ! j"
      using False by (rule fold_pairs_notin)
    then show ?thesis using j Cons.prems(2) by (simp add: p)
  qed
qed

lemma fold_const_length: "length (fold (\<lambda>i b. b[i := c]) inds a) = length a"
  by (induction inds arbitrary: a) auto

lemma fold_const_nth:
  "j < length a \<Longrightarrow> fold (\<lambda>i b. b[i := c]) inds a ! j = (if j \<in> set inds then c else a ! j)"
proof (induction inds arbitrary: a)
  case Nil
  then show ?case by simp
next
  case (Cons i inds)
  then show ?case by (cases "j = i") auto
qed

lemma fst_set_zip: "length xs = length ys \<Longrightarrow> fst ` set (zip xs ys) = set xs"
  by (metis map_fst_zip set_map)

lemma snd_set_zip: "length xs = length ys \<Longrightarrow> snd ` set (zip xs ys) = set ys"
  by (metis map_snd_zip set_map)

lemma assign_rows_Inr:
  assumes "assign_rows a inds vals = Inr b"
  shows "length b = length a"
    and "\<And>j. j < length a \<Longrightarrow> j \<notin> set inds \<Longrightarrow> b ! j = a ! j"
    and "\<And>j. j < length a \<Longrightarrow> j \<in> set inds \<Longrightarrow> b ! j \<in> set vals"
proof -
  have ok: "list_all (\<lambda>i. i < length a) inds"
    using assms by (auto simp: assign_rows_def split: if_splits)
  consider (same) "length vals = length inds"
      "b = fold (\<lambda>(i, v) b. b[i := v]) (zip inds vals) a"
    | (one) "length vals \<noteq> length inds" "length vals = 1"
      "b = fold (\<lambda>i b. b[i := hd vals]) inds a"
    using assms ok by (auto simp: assign_rows_def split: if_splits)
  note cases = this
  show "length b = length a"
    by (cases rule: cases) (simp_all add: fold_pairs_length fold_const_length)
  show "\<And>j. j < length a \<Longrightarrow> j \<notin> set inds \<Longrightarrow> b ! j = a ! j"
  proof -
    fix j assume j: "j < length a" "j \<notin> set inds"
    show "b ! j = a ! j"
    proof (cases rule: cases)
      case same
      have "j \<notin> fst ` set (zip inds vals)" using j(2) same(1) by (simp add: fst_set_zip)
      then show ?thesis using same(2) by (simp add: fold_pairs_notin)
    next
      case one
      then show ?thesis using j by (simp add: fold_const_nth)
    qed
  qed
  show "\<And>j. j < length a \<Longrightarrow> j \<in> set inds \<Longrightarrow> b ! j \<in> set vals"
  proof -
    fix j assume j: "j < length a" "j \<in> set inds"
    show "b ! j \<in> set vals"
    proof (cases rule: cases)
      case same
      have "j \<in> fst ` set (zip inds vals)" using j(2) same(1) by (simp add: fst_set_zip)
      then have "b ! j \<in> snd ` set (zip inds vals)"
        using same(2) j(1) by (simp add: fold_pairs_in)
      then show ?thesis using same(1) by (simp add: snd_set_zip)
    next
      case one
      then have "vals = [hd vals]" by (cases vals) simp_all
      then have "hd vals \<in> set vals" by (metis list.set_intros(1))
      then show ?thesis using one j by (simp add: fold_const_nth)
    qed
  qed
qed

lemma assign_rows_None_iff:
  assumes "assign_rows a inds (map Some vs) = Inr b" "j < length a"
  shows "b ! j = None \<longleftrightarrow> a ! j = None \<and> j \<notin> set inds"
proof (cases "j \<in> set inds")
  case True
  then have "b ! j \<in> set (map Some vs)" using assign_rows_Inr(3)[OF assms(1) assms(2)] by simp
  then show ?thesis using True by auto
next
  case False
  then show ?thesis using assign_rows_Inr(2)[OF assms(1) assms(2)] by simp
qed

lemma nuisance_fold_Inr:
  assumes "nuisance_fold E x y d (s, g, m) (tr, te) = Inr (s', g', m')"
  shows "\<exists>d1 y1 mhp br r xs ls lg gp xs' ls' lm mp.
      get_bracket_guess E (ipw_score s d1 y1 mhp) (coef_start_val s) (coef_bounds s) = Inr br
    \<and> root_scalar E (ipw_score s d1 y1 mhp) br = Inr r
    \<and> fit E (learner_g s) xs ls = Inr lg
    \<and> fit E (learner_m s) xs' ls' = Inr lm
    \<and> assign_rows g te (map Some gp) = Inr g'
    \<and> assign_rows m te (map Some mp) = Inr m'
    \<and> s' = s\<lparr>coef_start_val := r, learner_g := lg, learner_m := lm\<rparr>"
  using assms unfolding nuisance_fold_def Let_def
  apply (clarsimp simp: bind_exn_Inr_iff split: prod.splits)
  apply blast
  done

text \<open>What a fold that returns does to the prediction arrays and to the configuration.\<close>

lemma nuisance_fold_rows:
  assumes "nuisance_fold E x y d (s, g, m) (tr, te) = Inr (s', g', m')"
  shows "length g' = length g" "length m' = length m"
    "\<And>j. j < length g \<Longrightarrow> g' ! j = None \<longleftrightarrow> g ! j = None \<and> j \<notin> set te"
    "\<And>j. j < length m \<Longrightarrow> m' ! j = None \<longleftrightarrow> m ! j = None \<and> j \<notin> set te"
    "treatment s' = treatment s" "trimming_rule s' = trimming_rule s"
    "trimming_threshold s' = trimming_threshold s" "n_folds s' = n_folds s"
    "dml_data s' = dml_data s"
proof -
  from nuisance_fold_Inr[OF assms] obtain r lg lm gp mp where
    g: "assign_rows g te (map Some gp) = Inr g'"
    and m: "assign_rows m te (map Some mp) = Inr m'"
    and s: "s' = s\<lparr>coef_start_val := r, learner_g := lg, learner_m := lm\<rparr>"
    by blast
  show "length g' = length g" using assign_rows_Inr(1)[OF g] .
  show "length m' = length m" using assign_rows_Inr(1)[OF m] .
  show "\<And>j. j < length g \<Longrightarrow> g' ! j = None \<longleftrightarrow> g ! j = None \<and> j \<notin> set te"
    using assign_rows_None_iff[OF g] .
  show "\<And>j. j < length m \<Longrightarrow> m' ! j = None \<longleftrightarrow> m ! j = None \<and> j \<notin> set te"
    using assign_rows_None_iff[OF m] .
  show "treatment s' = treatment s" "trimming_rule s' = trimming_rule s"
    "trimming_threshold s' = trimming_threshold s" "n_folds s' = n_folds s"
    "dml_data s' = dml_data s"
    by (simp_all add: s)
qed

lemma nuisance_loop_rows:
  assumes "nuisance_loop E x y d sm (s, g, m) folds = Inr (s', g', m')"
  shows "length g' = length g \<and> length m' = length m
    \<and> (\<forall>j < length g. g' ! j = None \<longleftrightarrow>
          g ! j = None \<and> j \<notin> (\<Union>i \<in> set folds. set (snd (sm ! i))))
    \<and> (\<forall>j < length m. m' ! j = None \<longleftrightarrow>
          m ! j = None \<and> j \<notin> (\<Union>i \<in> set folds. set (snd (sm ! i))))
    \<and> treatment s' = treatment s \<and> trimming_rule s' = trimming_rule s
    \<and> trimming_threshold s' = trimming_threshold s \<and> n_folds s' = n_folds s
    \<and> dml_data s' = dml_data s"
  using assms
proof (induction folds arbitrary: s g m)
  case Nil
  then show ?case by simp
next
  case (Cons i folds)
  from Cons.prems obtain st1 where
    f: "nuisance_fold E x y d (s, g, m) (sm ! i) = Inr st1"
    and l: "nuisance_loop E x y d sm st1 folds = Inr (s', g', m')"
    by (auto simp: bind_exn_Inr_iff split: if_splits)
  obtain s1 g1 m1 where st1: "st1 = (s1, g1, m1)" by (cases st1) auto
  obtain tr te where fold: "sm ! i = (tr, te)" by (cases "sm ! i") auto
  note r = nuisance_fold_rows[OF f[unfolded st1 fold]]
  note ih = Cons.IH[OF l[unfolded st1]]
  show ?case using r ih by (simp add: fold)
qed

lemma one_minus_None: "length (one_minus a) = length a"
  "j < length a \<Longrightarrow> one_minus a ! j = None \<longleftrightarrow> a ! j = None"
  by (simp_all add: one_minus_def fl_sub_def fl_bin_def split: option.splits)

lemma store64_None: "length (store64 a) = length a"
  "j < length a \<Longrightarrow> store64 a ! j = None \<longleftrightarrow> a ! j = None"
  by (simp_all add: store64_def)

lemma trimm_None:
  assumes "trimm p rule tau = Inr r"
  shows "length r = length p" "\<And>j. j < length p \<Longrightarrow> r ! j = None \<longleftrightarrow> p ! j = None"
  using assms by (auto simp: trimm_def split: if_splits)

lemma check_X_y_Inr: "check_X_y x v = Inr r \<Longrightarrow> r = (x, v)"
  by (auto simp: check_X_y_def split: if_splits)

text \<open>A call of \<open>_nuisance_est\<close> that returns: the loop it ran and what it built from it.\<close>

lemma nuisance_est_Inr:
  assumes "nuisance_est E self sm = Inr (self', psi, pr)"
  shows "\<exists>g m0 m.
     nuisance_loop E (data_x (dml_data self)) (data_y (dml_data self)) (data_d (dml_data self)) sm
       (self, replicate (n_obs (dml_data self)) None, replicate (n_obs (dml_data self)) None)
       [0..<n_folds self] = Inr (self', g, m0)
     \<and> trimm (if treatment self' = 0 then store64 (one_minus m0) else m0) (trimming_rule self')
          (trimming_threshold self') = Inr m
     \<and> psi_g psi = g \<and> psi_m psi = store64 m \<and> preds_ml_g pr = g
     \<and> preds_ml_m pr = store64 m"
proof -
  from assms obtain x0 y x d self1 g m0 t where
    c1: "check_X_y (data_x (dml_data self)) (data_y (dml_data self)) = Inr (x0, y)"
    and c2: "check_X_y x0 (data_d (dml_data self)) = Inr (x, d)"
    and loop: "nuisance_loop E x y d sm
       (self, replicate (n_obs (dml_data self)) None, replicate (n_obs (dml_data self)) None)
       [0..<n_folds self] = Inr (self1, g, m0)"
    and tr: "trimm (if treatment self1 = 0 then store64 (one_minus m0) else m0)
         (trimming_rule self1) (trimming_threshold self1) = Inr t"
    and res: "(self', psi, pr) = (self1,
          \<lparr>psi_ind_d = map (\<lambda>v. v = treatment self1) d, psi_g = g, psi_m = store64 t,
           psi_y = y\<rparr>,
          \<lparr>preds_ml_g = g, preds_ml_m = store64 t\<rparr>)"
    unfolding nuisance_est_def Let_def
    by (auto simp: bind_exn_Inr_iff split: prod.splits)
  from c1 have 1: "x0 = data_x (dml_data self)" "y = data_y (dml_data self)"
    using check_X_y_Inr by fastforce+
  from c2 have 2: "x = x0" "d = data_d (dml_data self)"
    using check_X_y_Inr by fastforce+
  from res have 3: "self' = self1" "psi_g psi = g" "psi_m psi = store64 t"
    "preds_ml_g pr = g" "preds_ml_m pr = store64 t"
    by auto
  show ?thesis using loop tr unfolding 1 2 3 by blast
qed

lemma nuisance_est_rows:
  assumes "nuisance_est E self sm = Inr (self', psi, pr)" and "j < n_obs (dml_data self)"
  shows "length (psi_g psi) = n_obs (dml_data self)" "length (psi_m psi) = n_obs (dml_data self)"
    "preds_ml_g pr = psi_g psi" "preds_ml_m pr = psi_m psi"
    "psi_g psi ! j = None \<longleftrightarrow> j \<notin> test_rows sm (n_folds self)"
    "psi_m psi ! j = None \<longleftrightarrow> j \<notin> test_rows sm (n_folds self)"
proof -
  let ?n = "n_obs (dml_data self)"
  from nuisance_est_Inr[OF assms(1)] obtain g m0 m where
    loop: "nuisance_loop E (data_x (dml_data self)) (data_y (dml_data self))
       (data_d (dml_data self)) sm (self, replicate ?n None, replicate ?n None)
       [0..<n_folds self] = Inr (self', g, m0)"
    and tr: "trimm (if treatment self' = 0 then store64 (one_minus m0) else m0)
          (trimming_rule self') (trimming_threshold self') = Inr m"
    and eq: "psi_g psi = g" "psi_m psi = store64 m" "preds_ml_g pr = g"
      "preds_ml_m pr = store64 m"
    by blast
  note inv = nuisance_loop_rows[OF loop]
  have lg: "length g = ?n" and lm0: "length m0 = ?n" using inv by simp_all
  have tst: "(\<Union>i \<in> set [0..<n_folds self]. set (snd (sm ! i))) = test_rows sm (n_folds self)"
    by (simp add: test_rows_def)
  have gN: "g ! j = None \<longleftrightarrow> j \<notin> test_rows sm (n_folds self)"
    using inv assms(2) unfolding tst by simp
  have m0N: "m0 ! j = None \<longleftrightarrow> j \<notin> test_rows sm (n_folds self)"
    using inv assms(2) unfolding tst by simp
  let ?m1 = "if treatment self' = 0 then store64 (one_minus m0) else m0"
  have l1: "length ?m1 = ?n" using lm0 by (simp add: one_minus_None store64_None)
  have m1N: "?m1 ! j = None \<longleftrightarrow> m0 ! j = None"
    using lm0 assms(2) by (simp add: one_minus_None store64_None)
  have lm: "length (store64 m) = ?n" using trimm_None(1)[OF tr] l1 by (simp add: store64_None)
  have mN: "store64 m ! j = None \<longleftrightarrow> ?m1 ! j = None"
    using trimm_None(1)[OF tr] trimm_None(2)[OF tr, of j] l1 assms(2)
    by (simp add: store64_None)
  show "length (psi_g psi) = ?n" "length (psi_m psi) = ?n"
    "preds_ml_g pr = psi_g psi" "preds_ml_m pr = psi_m psi"
    using lg lm eq by simp_all
  show "psi_g psi ! j = None \<longleftrightarrow> j \<notin> test_rows sm (n_folds self)"
    using gN eq by simp
  show "psi_m psi ! j = None \<longleftrightarrow> j \<notin> test_rows sm (n_folds self)"
    using mN m1N m0N eq by simp
qed

subsection \<open>The prediction arrays after all folds\<close>

lemma toy_run:
  "nuisance_est toy_env toy_pq (toy_kfold 2 8) = Inr (toy_pq_after, toy_psi_hat, toy_preds)"
  by code_simp

lemma toy_gap_run:
  "nuisance_est toy_env toy_pq toy_gap_smpl = Inr (toy_pq_after, toy_gap_psi, toy_gap_preds)"
  by code_simp

lemma toy_test_rows:
  "test_rows (toy_kfold 2 8) 2 = {0..<8}"
  "6 \<notin> test_rows toy_gap_smpl 2"
  by code_simp+

lemma nuisance_est_lengths:
  assumes "nuisance_est E self sm = Inr (self', psi, pr)"
  shows "length (psi_g psi) = n_obs (dml_data self)" "length (psi_m psi) = n_obs (dml_data self)"
    "preds_ml_g pr = psi_g psi" "preds_ml_m pr = psi_m psi"
proof -
  let ?n = "n_obs (dml_data self)"
  from nuisance_est_Inr[OF assms(1)] obtain g m0 m where
    loop: "nuisance_loop E (data_x (dml_data self)) (data_y (dml_data self))
       (data_d (dml_data self)) sm (self, replicate ?n None, replicate ?n None)
       [0..<n_folds self] = Inr (self', g, m0)"
    and tr: "trimm (if treatment self' = 0 then store64 (one_minus m0) else m0)
          (trimming_rule self') (trimming_threshold self') = Inr m"
    and eq: "psi_g psi = g" "psi_m psi = store64 m" "preds_ml_g pr = g"
      "preds_ml_m pr = store64 m"
    by blast
  note inv = nuisance_loop_rows[OF loop]
  have lg: "length g = ?n" and lm0: "length m0 = ?n" using inv by simp_all
  have "length (if treatment self' = 0 then store64 (one_minus m0) else m0) = ?n"
    using lm0 by (simp add: one_minus_None store64_None)
  then have lm: "length (store64 m) = ?n" using trimm_None(1)[OF tr] by (simp add: store64_None)
  show "length (psi_g psi) = ?n" "length (psi_m psi) = ?n"
    "preds_ml_g pr = psi_g psi" "preds_ml_m pr = psi_m psi"
    using lg lm eq by simp_all
qed

text \<open>
  C3. When \<open>_nuisance_est\<close> returns, \<open>g_hat\<close> and \<open>m_hat\<close> (in the score elements and in the
  predictions alike) have length \<open>n_obs\<close>, and an entry is NaN exactly when its row is in no
  test set of the folds the loop read. So a split whose test sets cover \<open>[0, n_obs)\<close>
  leaves no NaN, and a row that no test set covers stays NaN. That the test sets are
  pairwise disjoint is not needed for this; it is what makes each row be written once.
\<close>

theorem nuisance_est_fills:
  assumes "nuisance_est E self smpls0 = Inr (self', psi, pr)"
  shows "length (psi_g psi) = n_obs (dml_data self) \<and> length (psi_m psi) = n_obs (dml_data self)
    \<and> preds_ml_g pr = psi_g psi \<and> preds_ml_m pr = psi_m psi
    \<and> (test_rows smpls0 (n_folds self) = {0..<n_obs (dml_data self)} \<longrightarrow>
         None \<notin> set (psi_g psi) \<and> None \<notin> set (psi_m psi))
    \<and> (\<forall>j < n_obs (dml_data self). j \<notin> test_rows smpls0 (n_folds self) \<longrightarrow>
         psi_g psi ! j = None \<and> psi_m psi ! j = None)"
proof -
  let ?n = "n_obs (dml_data self)"
  have len: "length (psi_g psi) = ?n" "length (psi_m psi) = ?n"
    and eq: "preds_ml_g pr = psi_g psi" "preds_ml_m pr = psi_m psi"
    using nuisance_est_lengths[OF assms] by simp_all
  have rows: "\<And>j. j < ?n \<Longrightarrow>
      (psi_g psi ! j = None \<longleftrightarrow> j \<notin> test_rows smpls0 (n_folds self))
      \<and> (psi_m psi ! j = None \<longleftrightarrow> j \<notin> test_rows smpls0 (n_folds self))"
    using nuisance_est_rows(5,6)[OF assms] by blast
  have cover: "None \<notin> set (psi_g psi) \<and> None \<notin> set (psi_m psi)"
    if c: "test_rows smpls0 (n_folds self) = {0..<?n}"
  proof -
    have "\<And>j. j < ?n \<Longrightarrow> psi_g psi ! j \<noteq> None \<and> psi_m psi ! j \<noteq> None"
      using rows c by simp
    then show ?thesis using len by (metis in_set_conv_nth)
  qed
  show ?thesis using len eq rows cover by blast
qed

theorem nuisance_est_fills_witness:
  "nuisance_est toy_env toy_pq (toy_kfold 2 8) = Inr (toy_pq_after, toy_psi_hat, toy_preds)
   \<and> test_rows (toy_kfold 2 8) (n_folds toy_pq) = {0..<n_obs (dml_data toy_pq)}
   \<and> length (psi_g toy_psi_hat) = 8 \<and> length (psi_m toy_psi_hat) = 8
   \<and> None \<notin> set (psi_g toy_psi_hat) \<and> None \<notin> set (psi_m toy_psi_hat)
   \<and> nuisance_est toy_env toy_pq toy_gap_smpl = Inr (toy_pq_after, toy_gap_psi, toy_gap_preds)
   \<and> 6 < n_obs (dml_data toy_pq) \<and> 6 \<notin> test_rows toy_gap_smpl (n_folds toy_pq)
   \<and> psi_g toy_gap_psi ! 6 = None \<and> psi_m toy_gap_psi ! 6 = None"
proof -
  have n: "n_folds toy_pq = 2" "n_obs (dml_data toy_pq) = 8"
    by (simp_all add: toy_pq_def toy_init_parts)
  have c: "test_rows (toy_kfold 2 8) (n_folds toy_pq) = {0..<n_obs (dml_data toy_pq)}"
    unfolding n by (rule toy_test_rows)
  have u: "6 < n_obs (dml_data toy_pq)" "6 \<notin> test_rows toy_gap_smpl (n_folds toy_pq)"
    unfolding n by (simp_all add: toy_test_rows)
  note a = nuisance_est_fills[OF toy_run]
  note b = nuisance_est_fills[OF toy_gap_run]
  have 1: "length (psi_g toy_psi_hat) = 8" "length (psi_m toy_psi_hat) = 8"
    using a n by simp_all
  have 2: "None \<notin> set (psi_g toy_psi_hat) \<and> None \<notin> set (psi_m toy_psi_hat)"
    using a c by blast
  have 3: "psi_g toy_gap_psi ! 6 = None \<and> psi_m toy_gap_psi ! 6 = None"
    using b u by blast
  show ?thesis using toy_run toy_gap_run c u 1 2 3 by blast
qed

subsection \<open>What a call leaves in the object\<close>

lemma nuisance_loop_append:
  "nuisance_loop E x y d sm st (folds @ rest) =
     bind_exn (nuisance_loop E x y d sm st folds) (\<lambda>st1. nuisance_loop E x y d sm st1 rest)"
proof (induction folds arbitrary: st)
  case Nil
  then show ?case by simp
next
  case (Cons i folds)
  show ?case
  proof (cases "i < length sm")
    case False
    then show ?thesis by simp
  next
    case True
    show ?thesis
    proof (cases "nuisance_fold E x y d st (sm ! i)")
      case (Inl e)
      then show ?thesis using True by simp
    next
      case (Inr st1)
      then show ?thesis using True Cons.IH[of st1] by simp
    qed
  qed
qed

text \<open>
  With at least one fold, a call that returns ends with the fold \<open>n_folds - 1\<close>, run on the
  object \<open>prev\<close> that the folds before it left.
\<close>

lemma nuisance_est_last_fold:
  assumes "nuisance_est E self sm = Inr (self', psi, pr)" and "n_folds self = Suc k"
  shows "\<exists>prev g m g' m'.
     nuisance_loop E (data_x (dml_data self)) (data_y (dml_data self)) (data_d (dml_data self)) sm
       (self, replicate (n_obs (dml_data self)) None, replicate (n_obs (dml_data self)) None)
       [0..<k] = Inr (prev, g, m)
     \<and> nuisance_fold E (data_x (dml_data self)) (data_y (dml_data self))
          (data_d (dml_data self)) (prev, g, m) (sm ! k) = Inr (self', g', m')"
proof -
  let ?n = "n_obs (dml_data self)"
  let ?x = "data_x (dml_data self)" and ?y = "data_y (dml_data self)"
    and ?d = "data_d (dml_data self)"
  from nuisance_est_Inr[OF assms(1)] obtain g' m' where
    "nuisance_loop E ?x ?y ?d sm (self, replicate ?n None, replicate ?n None)
       [0..<n_folds self] = Inr (self', g', m')"
    by blast
  then have "bind_exn (nuisance_loop E ?x ?y ?d sm (self, replicate ?n None, replicate ?n None)
       [0..<k]) (\<lambda>st1. nuisance_loop E ?x ?y ?d sm st1 [k]) = Inr (self', g', m')"
    using nuisance_loop_append[of E ?x ?y ?d sm _ "[0..<k]" "[k]"] assms(2) by simp
  then obtain st1 where
    1: "nuisance_loop E ?x ?y ?d sm (self, replicate ?n None, replicate ?n None) [0..<k] = Inr st1"
    and 2: "nuisance_loop E ?x ?y ?d sm st1 [k] = Inr (self', g', m')"
    by (auto simp: bind_exn_Inr_iff)
  obtain prev g m where st1: "st1 = (prev, g, m)" by (cases st1) auto
  from 2 have "nuisance_fold E ?x ?y ?d st1 (sm ! k) = Inr (self', g', m')"
    by (auto simp: bind_exn_Inr_iff split: if_splits)
  with 1 st1 show ?thesis by blast
qed

lemma nuisance_est_no_fold:
  assumes "nuisance_est E self sm = Inr (self', psi, pr)" and "n_folds self = 0"
  shows "self' = self"
  using nuisance_est_Inr[OF assms(1)] assms(2) by auto

lemma init_start_val:
  assumes "init E a = Inr s"
  shows "coef_start_val s = np_quantile (data_y (dml_data s)) (quantile s)"
    "learner_g s = clone E (arg_ml_g a)" "learner_m s = clone E (arg_ml_m a)"
  using assms unfolding init_def super_init_def Let_def
  by (auto simp: bind_exn_Inr_iff split: if_splits prod.splits)

lemma toy_init: "init toy_env toy_args = Inr toy_pq"
  by code_simp

lemma toy_no_fold_run:
  "nuisance_est toy_env (toy_pq\<lparr>n_folds := 0\<rparr>) [] =
     Inr (toy_pq\<lparr>n_folds := 0\<rparr>,
          toy_psi_hat\<lparr>psi_g := replicate 8 None, psi_m := replicate 8 None\<rparr>,
          \<lparr>preds_ml_g = replicate 8 None, preds_ml_m = replicate 8 None\<rparr>)"
  by code_simp

lemma toy_field_values:
  "coef_start_val toy_pq = 9 / 2" "coef_start_val toy_pq_after = 51 / 16"
  "quantile toy_pq_after = 1 / 2" "dml_data toy_pq_after = toy_data"
  "quantile toy_pq = 1 / 2" "dml_data toy_pq = toy_data"
  "learner_g toy_pq = Blueprint" "learner_m toy_pq = Blueprint"
  "learner_g toy_pq_after = Fitted [5] [BoolLabel False]"
  "learner_m toy_pq_after = Fitted [1, 3, 5, 7] [IntLabel 1, IntLabel 0, IntLabel 1, IntLabel 0]"
  "n_folds toy_pq = Suc 1"
  by (simp_all add: toy_pq_def toy_pq_after_def)

text \<open>
  C6, as the code has it. The constructor stores the empirical quantile of Y as the start
  value. \<open>_nuisance_est\<close> keeps the warm-start guess in the object: the bracket search of a
  fold is seeded with the start value stored when the fold begins, and the fold then
  stores its IPW root as the new start value. After a call with at least one fold the
  stored start value is the root of the last fold, found from a bracket seeded with what
  the folds before it left; with no fold it is unchanged.
\<close>

theorem nuisance_est_start_val:
  "(init E a = Inr self0 \<longrightarrow>
      coef_start_val self0 = np_quantile (data_y (dml_data self0)) (quantile self0))
   \<and> (nuisance_est E self smpls0 = Inr (self', psi, pr) \<and> n_folds self = Suc k \<longrightarrow>
        (\<exists>prev g m d1 y1 mhp br.
           nuisance_loop E (data_x (dml_data self)) (data_y (dml_data self))
             (data_d (dml_data self)) smpls0
             (self, replicate (n_obs (dml_data self)) None,
              replicate (n_obs (dml_data self)) None) [0..<k] = Inr (prev, g, m)
           \<and> get_bracket_guess E (ipw_score prev d1 y1 mhp) (coef_start_val prev)
                (coef_bounds prev) = Inr br
           \<and> root_scalar E (ipw_score prev d1 y1 mhp) br = Inr (coef_start_val self')))
   \<and> (nuisance_est E self smpls0 = Inr (self', psi, pr) \<and> n_folds self = 0 \<longrightarrow>
        coef_start_val self' = coef_start_val self)"
proof (intro conjI impI)
  assume "init E a = Inr self0"
  then show "coef_start_val self0 = np_quantile (data_y (dml_data self0)) (quantile self0)"
    by (rule init_start_val(1))
next
  assume h: "nuisance_est E self smpls0 = Inr (self', psi, pr) \<and> n_folds self = Suc k"
  let ?x = "data_x (dml_data self)" and ?y = "data_y (dml_data self)"
    and ?d = "data_d (dml_data self)" and ?n = "n_obs (dml_data self)"
  from nuisance_est_last_fold[of E self smpls0 self' psi pr k] h
  obtain prev g m g' m' where
    loop: "nuisance_loop E ?x ?y ?d smpls0 (self, replicate ?n None, replicate ?n None) [0..<k]
           = Inr (prev, g, m)"
    and fold: "nuisance_fold E ?x ?y ?d (prev, g, m) (smpls0 ! k) = Inr (self', g', m')"
    by blast
  obtain tr te where k: "smpls0 ! k = (tr, te)" by (cases "smpls0 ! k") auto
  from nuisance_fold_Inr[OF fold[unfolded k]] obtain d1 y1 mhp br r lg lm where
    a: "get_bracket_guess E (ipw_score prev d1 y1 mhp) (coef_start_val prev) (coef_bounds prev)
       = Inr br"
    and b: "root_scalar E (ipw_score prev d1 y1 mhp) br = Inr r"
    and c: "self' = prev\<lparr>coef_start_val := r, learner_g := lg, learner_m := lm\<rparr>"
    by blast
  have "coef_start_val self' = r" using c by simp
  with a b loop show "\<exists>prev g m d1 y1 mhp br.
           nuisance_loop E ?x ?y ?d smpls0 (self, replicate ?n None, replicate ?n None) [0..<k]
             = Inr (prev, g, m)
           \<and> get_bracket_guess E (ipw_score prev d1 y1 mhp) (coef_start_val prev)
                (coef_bounds prev) = Inr br
           \<and> root_scalar E (ipw_score prev d1 y1 mhp) br = Inr (coef_start_val self')"
    by blast
next
  assume "nuisance_est E self smpls0 = Inr (self', psi, pr) \<and> n_folds self = 0"
  then show "coef_start_val self' = coef_start_val self"
    using nuisance_est_no_fold[of E self smpls0 self' psi pr] by simp
qed

theorem nuisance_est_start_val_witness:
  "init toy_env toy_args = Inr toy_pq
   \<and> coef_start_val toy_pq = np_quantile (data_y (dml_data toy_pq)) (quantile toy_pq)
   \<and> nuisance_est toy_env toy_pq (toy_kfold 2 8) = Inr (toy_pq_after, toy_psi_hat, toy_preds)
   \<and> n_folds toy_pq = Suc 1
   \<and> (\<exists>prev g m d1 y1 mhp br.
         nuisance_loop toy_env (data_x (dml_data toy_pq)) (data_y (dml_data toy_pq))
           (data_d (dml_data toy_pq)) (toy_kfold 2 8)
           (toy_pq, replicate (n_obs (dml_data toy_pq)) None,
            replicate (n_obs (dml_data toy_pq)) None) [0..<1] = Inr (prev, g, m)
         \<and> get_bracket_guess toy_env (ipw_score prev d1 y1 mhp) (coef_start_val prev)
              (coef_bounds prev) = Inr br
         \<and> root_scalar toy_env (ipw_score prev d1 y1 mhp) br = Inr (51 / 16))
   \<and> nuisance_est toy_env (toy_pq\<lparr>n_folds := 0\<rparr>) [] =
        Inr (toy_pq\<lparr>n_folds := 0\<rparr>,
             toy_psi_hat\<lparr>psi_g := replicate 8 None, psi_m := replicate 8 None\<rparr>,
             \<lparr>preds_ml_g = replicate 8 None, preds_ml_m = replicate 8 None\<rparr>)
   \<and> n_folds (toy_pq\<lparr>n_folds := 0\<rparr>) = 0
   \<and> coef_start_val (toy_pq\<lparr>n_folds := 0\<rparr>) = coef_start_val (toy_pq\<lparr>n_folds := 0\<rparr>)"
proof -
  note t = nuisance_est_start_val[of toy_env toy_args toy_pq toy_pq "toy_kfold 2 8"
      toy_pq_after toy_psi_hat toy_preds 1]
  have 1: "coef_start_val toy_pq = np_quantile (data_y (dml_data toy_pq)) (quantile toy_pq)"
    using t toy_init by blast
  have 2: "\<exists>prev g m d1 y1 mhp br.
         nuisance_loop toy_env (data_x (dml_data toy_pq)) (data_y (dml_data toy_pq))
           (data_d (dml_data toy_pq)) (toy_kfold 2 8)
           (toy_pq, replicate (n_obs (dml_data toy_pq)) None,
            replicate (n_obs (dml_data toy_pq)) None) [0..<1] = Inr (prev, g, m)
         \<and> get_bracket_guess toy_env (ipw_score prev d1 y1 mhp) (coef_start_val prev)
              (coef_bounds prev) = Inr br
         \<and> root_scalar toy_env (ipw_score prev d1 y1 mhp) br = Inr (51 / 16)"
    using t toy_run toy_field_values(11) unfolding toy_field_values(2) by blast
  show ?thesis using toy_init 1 toy_run toy_field_values(11) 2 toy_no_fold_run by simp
qed

theorem start_val_overwritten_counterexample:
  "init toy_env toy_args = Inr toy_pq
   \<and> coef_start_val toy_pq = np_quantile (data_y (dml_data toy_pq)) (quantile toy_pq)
   \<and> nuisance_est toy_env toy_pq (toy_kfold 2 8) = Inr (toy_pq_after, toy_psi_hat, toy_preds)
   \<and> np_quantile (data_y (dml_data toy_pq_after)) (quantile toy_pq_after) = 9 / 2
   \<and> coef_start_val toy_pq_after = 51 / 16
   \<and> coef_start_val toy_pq_after
        \<noteq> np_quantile (data_y (dml_data toy_pq_after)) (quantile toy_pq_after)"
  using toy_init toy_run
  by (simp add: toy_field_values toy_init_parts)

text \<open>
  C5, as the code has it. The constructor stores clones of the learners it is given.
  \<open>_nuisance_est\<close> does not clone again: each fold calls \<open>fit\<close> on the stored learners
  themselves, so after a call with at least one fold the stored learners are the results
  of fitting, in the last fold, the learners that the folds before it left.
\<close>

theorem learners_cloned_once_fitted_in_place:
  "(init E a = Inr self0 \<longrightarrow>
      learner_g self0 = clone E (arg_ml_g a) \<and> learner_m self0 = clone E (arg_ml_m a))
   \<and> (nuisance_est E self smpls0 = Inr (self', psi, pr) \<and> n_folds self = Suc k \<longrightarrow>
        (\<exists>prev g m xs ls xs' ls'.
           nuisance_loop E (data_x (dml_data self)) (data_y (dml_data self))
             (data_d (dml_data self)) smpls0
             (self, replicate (n_obs (dml_data self)) None,
              replicate (n_obs (dml_data self)) None) [0..<k] = Inr (prev, g, m)
           \<and> fit E (learner_g prev) xs ls = Inr (learner_g self')
           \<and> fit E (learner_m prev) xs' ls' = Inr (learner_m self')))"
proof (intro conjI impI)
  assume "init E a = Inr self0"
  then show "learner_g self0 = clone E (arg_ml_g a)" "learner_m self0 = clone E (arg_ml_m a)"
    by (rule init_start_val(2), rule init_start_val(3))
next
  assume h: "nuisance_est E self smpls0 = Inr (self', psi, pr) \<and> n_folds self = Suc k"
  let ?x = "data_x (dml_data self)" and ?y = "data_y (dml_data self)"
    and ?d = "data_d (dml_data self)" and ?n = "n_obs (dml_data self)"
  from nuisance_est_last_fold[of E self smpls0 self' psi pr k] h
  obtain prev g m g' m' where
    loop: "nuisance_loop E ?x ?y ?d smpls0 (self, replicate ?n None, replicate ?n None) [0..<k]
           = Inr (prev, g, m)"
    and fold: "nuisance_fold E ?x ?y ?d (prev, g, m) (smpls0 ! k) = Inr (self', g', m')"
    by blast
  obtain tr te where k: "smpls0 ! k = (tr, te)" by (cases "smpls0 ! k") auto
  from nuisance_fold_Inr[OF fold[unfolded k]] obtain r xs ls lg xs' ls' lm where
    a: "fit E (learner_g prev) xs ls = Inr lg" and b: "fit E (learner_m prev) xs' ls' = Inr lm"
    and c: "self' = prev\<lparr>coef_start_val := r, learner_g := lg, learner_m := lm\<rparr>"
    by blast
  have "learner_g self' = lg" "learner_m self' = lm" using c by simp_all
  with a b loop show "\<exists>prev g m xs ls xs' ls'.
           nuisance_loop E ?x ?y ?d smpls0 (self, replicate ?n None, replicate ?n None) [0..<k]
             = Inr (prev, g, m)
           \<and> fit E (learner_g prev) xs ls = Inr (learner_g self')
           \<and> fit E (learner_m prev) xs' ls' = Inr (learner_m self')"
    by blast
qed

theorem learners_cloned_once_fitted_in_place_witness:
  "init toy_env toy_args = Inr toy_pq
   \<and> learner_g toy_pq = clone toy_env (arg_ml_g toy_args)
   \<and> learner_m toy_pq = clone toy_env (arg_ml_m toy_args)
   \<and> nuisance_est toy_env toy_pq (toy_kfold 2 8) = Inr (toy_pq_after, toy_psi_hat, toy_preds)
   \<and> n_folds toy_pq = Suc 1
   \<and> (\<exists>prev g m xs ls xs' ls'.
         nuisance_loop toy_env (data_x (dml_data toy_pq)) (data_y (dml_data toy_pq))
           (data_d (dml_data toy_pq)) (toy_kfold 2 8)
           (toy_pq, replicate (n_obs (dml_data toy_pq)) None,
            replicate (n_obs (dml_data toy_pq)) None) [0..<1] = Inr (prev, g, m)
         \<and> fit toy_env (learner_g prev) xs ls = Inr (Fitted [5] [BoolLabel False])
         \<and> fit toy_env (learner_m prev) xs' ls'
             = Inr (Fitted [1, 3, 5, 7] [IntLabel 1, IntLabel 0, IntLabel 1, IntLabel 0]))"
proof -
  note t = learners_cloned_once_fitted_in_place[of toy_env toy_args toy_pq toy_pq
      "toy_kfold 2 8" toy_pq_after toy_psi_hat toy_preds 1]
  have 1: "learner_g toy_pq = clone toy_env (arg_ml_g toy_args)"
    "learner_m toy_pq = clone toy_env (arg_ml_m toy_args)"
    using t toy_init by blast+
  have 2: "\<exists>prev g m xs ls xs' ls'.
         nuisance_loop toy_env (data_x (dml_data toy_pq)) (data_y (dml_data toy_pq))
           (data_d (dml_data toy_pq)) (toy_kfold 2 8)
           (toy_pq, replicate (n_obs (dml_data toy_pq)) None,
            replicate (n_obs (dml_data toy_pq)) None) [0..<1] = Inr (prev, g, m)
         \<and> fit toy_env (learner_g prev) xs ls = Inr (Fitted [5] [BoolLabel False])
         \<and> fit toy_env (learner_m prev) xs' ls'
             = Inr (Fitted [1, 3, 5, 7] [IntLabel 1, IntLabel 0, IntLabel 1, IntLabel 0])"
    using t toy_run toy_field_values(11) unfolding toy_field_values(9,10) by blast
  show ?thesis using toy_init 1 toy_run toy_field_values(11) 2 by simp
qed

theorem learners_fitted_in_place_counterexample:
  "init toy_env toy_args = Inr toy_pq
   \<and> learner_g toy_pq = Blueprint \<and> learner_m toy_pq = Blueprint
   \<and> nuisance_est toy_env toy_pq (toy_kfold 2 8) = Inr (toy_pq_after, toy_psi_hat, toy_preds)
   \<and> learner_g toy_pq_after = Fitted [5] [BoolLabel False]
   \<and> learner_m toy_pq_after
        = Fitted [1, 3, 5, 7] [IntLabel 1, IntLabel 0, IntLabel 1, IntLabel 0]
   \<and> learner_g toy_pq_after \<noteq> learner_g toy_pq
   \<and> learner_m toy_pq_after \<noteq> learner_m toy_pq"
  using toy_init toy_run
  by (simp add: toy_field_values)

end
